theory Spec2Isabelle
  imports Complex_Main
begin

section \<open>Python values, series and data frames\<close>

text \<open>
  The profiler of \<^verbatim>\<open>src/building_blocks/data/smart_data_profiler.py\<close> works on pandas
  data frames whose cells are arbitrary Python objects. A cell is a \<open>pyval\<close>; the three
  missing markers of pandas (\<^verbatim>\<open>None\<close>, \<^verbatim>\<open>NaN\<close>, \<^verbatim>\<open>NaT\<close>) are kept apart because the
  source tests \<^verbatim>\<open>x is not None\<close> in one place and \<^verbatim>\<open>isnull\<close> elsewhere. Floats are exact
  rationals; containers carry their \<^verbatim>\<open>repr\<close> only, since the source looks at nothing but
  their type and their (un)hashability.
\<close>

datatype pyval =
    PyNone
  | PyNaN
  | PyNaT
  | PyBool bool
  | PyInt int
  | PyFloat rat
  | PyStr string
  | PyDatetime int
  | PyTimestamp int
  | PyDate int
  | PyDict string
  | PyList string
  | PyTuple string
  | PySet string

datatype pytype =
    T_NoneType | T_float | T_NaTType | T_bool | T_int | T_str
  | T_datetime | T_Timestamp | T_date | T_dict | T_list | T_tuple | T_set

fun py_type :: "pyval \<Rightarrow> pytype" where
  "py_type PyNone = T_NoneType"
| "py_type PyNaN = T_float"
| "py_type PyNaT = T_NaTType"
| "py_type (PyBool _) = T_bool"
| "py_type (PyInt _) = T_int"
| "py_type (PyFloat _) = T_float"
| "py_type (PyStr _) = T_str"
| "py_type (PyDatetime _) = T_datetime"
| "py_type (PyTimestamp _) = T_Timestamp"
| "py_type (PyDate _) = T_date"
| "py_type (PyDict _) = T_dict"
| "py_type (PyList _) = T_list"
| "py_type (PyTuple _) = T_tuple"
| "py_type (PySet _) = T_set"

fun type_name :: "pytype \<Rightarrow> string" where
  "type_name T_NoneType = ''NoneType''"
| "type_name T_float = ''float''"
| "type_name T_NaTType = ''NaTType''"
| "type_name T_bool = ''bool''"
| "type_name T_int = ''int''"
| "type_name T_str = ''str''"
| "type_name T_datetime = ''datetime''"
| "type_name T_Timestamp = ''Timestamp''"
| "type_name T_date = ''date''"
| "type_name T_dict = ''dict''"
| "type_name T_list = ''list''"
| "type_name T_tuple = ''tuple''"
| "type_name T_set = ''set''"

text \<open>\<^verbatim>\<open>pd.isnull\<close> on a cell.\<close>

fun isnull :: "pyval \<Rightarrow> bool" where
  "isnull PyNone = True"
| "isnull PyNaN = True"
| "isnull PyNaT = True"
| "isnull _ = False"

text \<open>\<^verbatim>\<open>isinstance(x, str)\<close>.\<close>

fun is_str :: "pyval \<Rightarrow> bool" where
  "is_str (PyStr _) = True"
| "is_str _ = False"

text \<open>
  The storage dtype of a column, as far as the source distinguishes it:
  \<^verbatim>\<open>is_datetime64_any_dtype\<close>, \<^verbatim>\<open>series.dtype == bool\<close>, \<^verbatim>\<open>is_numeric_dtype\<close> and
  \<^verbatim>\<open>select_dtypes(include=[np.number])\<close>.
\<close>

datatype dtype = D_int64 | D_float64 | D_bool | D_datetime64 | D_object

fun is_datetime64_any_dtype :: "dtype \<Rightarrow> bool" where
  "is_datetime64_any_dtype D_datetime64 = True"
| "is_datetime64_any_dtype _ = False"

text \<open>pandas counts \<^verbatim>\<open>bool\<close> storage as a numeric dtype, numpy's \<^verbatim>\<open>np.number\<close> does not.\<close>

fun is_numeric_dtype :: "dtype \<Rightarrow> bool" where
  "is_numeric_dtype D_int64 = True"
| "is_numeric_dtype D_float64 = True"
| "is_numeric_dtype D_bool = True"
| "is_numeric_dtype _ = False"

fun is_np_number :: "dtype \<Rightarrow> bool" where
  "is_np_number D_int64 = True"
| "is_np_number D_float64 = True"
| "is_np_number _ = False"

text \<open>
  A series carries its storage dtype, its index labels and its cells, aligned by position.
  A data frame carries one index and its named columns in order. Index labels are integers:
  the default \<^verbatim>\<open>RangeIndex\<close> is \<open>0, 1, \<dots>\<close>, and a sampled frame keeps the labels of the
  rows it drew. In a well-formed frame the column names are distinct (only then is
  \<^verbatim>\<open>df[column]\<close> a series) and every column has one cell for each index label.
\<close>

record series =
  s_dtype :: dtype
  s_index :: "int list"
  s_values :: "pyval list"

record dataframe =
  df_index :: "int list"
  df_columns :: "(string \<times> dtype \<times> pyval list) list"

definition df_len :: "dataframe \<Rightarrow> nat" where
  "df_len df = length (df_index df)"

definition df_empty :: "dataframe \<Rightarrow> bool" where
  "df_empty df \<longleftrightarrow> df_columns df = [] \<or> df_index df = []"

definition column_series :: "dataframe \<Rightarrow> dtype \<times> pyval list \<Rightarrow> series" where
  "column_series df col = \<lparr>s_dtype = fst col, s_index = df_index df, s_values = snd col\<rparr>"

definition range_index :: "nat \<Rightarrow> int list" where
  "range_index n = map int [0..<n]"

definition wf_dataframe :: "dataframe \<Rightarrow> bool" where
  "wf_dataframe df \<longleftrightarrow>
     distinct (map fst (df_columns df)) \<and>
     list_all (\<lambda>c. length (snd (snd c)) = length (df_index df)) (df_columns df)"

definition isnull_mask :: "series \<Rightarrow> bool list" where
  "isnull_mask s = map isnull (s_values s)"

definition isnull_sum :: "series \<Rightarrow> nat" where
  "isnull_sum s = length (filter isnull (s_values s))"

definition dropna :: "series \<Rightarrow> series" where
  "dropna s =
     (let kept = filter (\<lambda>p. \<not> isnull (snd p)) (zip (s_index s) (s_values s))
      in \<lparr>s_dtype = s_dtype s, s_index = map fst kept, s_values = map snd kept\<rparr>)"

definition s_len :: "series \<Rightarrow> nat" where
  "s_len s = length (s_values s)"

section \<open>Floats, result dictionaries and exceptions\<close>

text \<open>
  A float of the result is an exact rational or \<^verbatim>\<open>NaN\<close> (numpy yields \<^verbatim>\<open>NaN\<close> for
  \<^verbatim>\<open>0/0\<close> instead of raising). Arithmetic propagates \<^verbatim>\<open>NaN\<close>; every comparison with
  \<^verbatim>\<open>NaN\<close> is false.
\<close>

datatype fnum = Fin rat | NaN

fun fadd :: "fnum \<Rightarrow> fnum \<Rightarrow> fnum" where
  "fadd (Fin a) (Fin b) = Fin (a + b)"
| "fadd _ _ = NaN"

fun fsub :: "fnum \<Rightarrow> fnum \<Rightarrow> fnum" where
  "fsub (Fin a) (Fin b) = Fin (a - b)"
| "fsub _ _ = NaN"

fun fmul :: "fnum \<Rightarrow> fnum \<Rightarrow> fnum" where
  "fmul (Fin a) (Fin b) = Fin (a * b)"
| "fmul _ _ = NaN"

fun flt :: "fnum \<Rightarrow> fnum \<Rightarrow> bool" where
  "flt (Fin a) (Fin b) = (a < b)"
| "flt _ _ = False"

text \<open>True division of floats by a divisor known to be non-zero.\<close>

fun fdiv :: "fnum \<Rightarrow> fnum \<Rightarrow> fnum" where
  "fdiv (Fin a) (Fin b) = Fin (a / b)"
| "fdiv _ _ = NaN"

text \<open>Python's \<^verbatim>\<open>min(a, b)\<close>: \<open>b\<close> if \<open>b < a\<close>, else \<open>a\<close>.\<close>

definition fmin :: "fnum \<Rightarrow> fnum \<Rightarrow> fnum" where
  "fmin a b = (if flt b a then b else a)"

text \<open>numpy division of an integer count by a length: \<^verbatim>\<open>0/0\<close> is \<^verbatim>\<open>NaN\<close>.\<close>

definition np_ratio :: "nat \<Rightarrow> nat \<Rightarrow> fnum" where
  "np_ratio a b = (if b = 0 then NaN else Fin (of_nat a / of_nat b))"

text \<open>
  The values stored in the result dictionaries. A Python \<^verbatim>\<open>dict\<close> is an association list
  in insertion order with unique keys; \<open>dict_set\<close> is \<^verbatim>\<open>d[k] = v\<close>, \<open>dict_update\<close> is
  \<^verbatim>\<open>d.update(e)\<close>.
\<close>

datatype jv =
    JNone
  | JBool bool
  | JInt int
  | JNum fnum
  | JStr string
  | JList "jv list"
  | JDict "(string \<times> jv) list"

type_synonym pydict = "(string \<times> jv) list"

definition dict_get :: "('k \<times> 'v) list \<Rightarrow> 'k \<Rightarrow> 'v option" where
  "dict_get d k = map_of d k"

fun dict_set :: "'k \<Rightarrow> 'v \<Rightarrow> ('k \<times> 'v) list \<Rightarrow> ('k \<times> 'v) list" where
  "dict_set k v [] = [(k, v)]"
| "dict_set k v (p # d) = (if fst p = k then (k, v) # d else p # dict_set k v d)"

definition dict_update :: "('k \<times> 'v) list \<Rightarrow> ('k \<times> 'v) list \<Rightarrow> ('k \<times> 'v) list" where
  "dict_update d e = fold (\<lambda>p acc. dict_set (fst p) (snd p) acc) e d"

definition dict_keys :: "('k \<times> 'v) list \<Rightarrow> 'k list" where
  "dict_keys d = map fst d"

text \<open>
  An exception is its class name and its message (\<^verbatim>\<open>str(e)\<close>). A computation that may
  raise returns \<open>pyexn + 'a\<close>, with \<open>Inl\<close> for the exception.
\<close>

datatype pyexn = PyExn string string

fun exn_class :: "pyexn \<Rightarrow> string" where
  "exn_class (PyExn c m) = c"

fun exn_str :: "pyexn \<Rightarrow> string" where
  "exn_str (PyExn c m) = m"

definition ebind :: "pyexn + 'a \<Rightarrow> ('a \<Rightarrow> pyexn + 'b) \<Rightarrow> pyexn + 'b" where
  "ebind m f = (case m of Inl e \<Rightarrow> Inl e | Inr x \<Rightarrow> f x)"

fun emap :: "('a \<Rightarrow> pyexn + 'b) \<Rightarrow> 'a list \<Rightarrow> pyexn + 'b list" where
  "emap f [] = Inr []"
| "emap f (x # xs) =
     (case f x of
        Inl e \<Rightarrow> Inl e
      | Inr y \<Rightarrow> (case emap f xs of Inl e \<Rightarrow> Inl e | Inr ys \<Rightarrow> Inr (y # ys)))"

text \<open>
  Dynamic typing at the places where the scorer reads a dictionary: a number used in
  arithmetic (\<^verbatim>\<open>bool\<close> is a number in Python), \<^verbatim>\<open>d[k]\<close> on a value, and true division.
\<close>

fun as_number :: "jv \<Rightarrow> pyexn + fnum" where
  "as_number (JInt i) = Inr (Fin (of_int i))"
| "as_number (JNum f) = Inr f"
| "as_number (JBool b) = Inr (Fin (if b then 1 else 0))"
| "as_number _ = Inl (PyExn ''TypeError'' ''unsupported operand type(s)'')"

definition subscript :: "pydict \<Rightarrow> string \<Rightarrow> pyexn + jv" where
  "subscript d k = (case dict_get d k of
       None \<Rightarrow> Inl (PyExn ''KeyError'' k)
     | Some v \<Rightarrow> Inr v)"

fun jv_subscript :: "jv \<Rightarrow> string \<Rightarrow> pyexn + jv" where
  "jv_subscript (JDict d) k = subscript d k"
| "jv_subscript _ k = Inl (PyExn ''TypeError'' ''object is not subscriptable with a str key'')"

definition py_truediv :: "fnum \<Rightarrow> fnum \<Rightarrow> pyexn + fnum" where
  "py_truediv a b =
     (case b of
        NaN \<Rightarrow> Inr NaN
      | Fin y \<Rightarrow>
          if y = 0 then Inl (PyExn ''ZeroDivisionError'' ''division by zero'')
          else (case a of NaN \<Rightarrow> Inr NaN | Fin x \<Rightarrow> Inr (Fin (x / y))))"

section \<open>Missing-pattern analyzer\<close>

text \<open>
  \<^verbatim>\<open>_detect_missing_pattern(null_mask)\<close>: \<^verbatim>\<open>null_mask[null_mask].index.tolist()\<close> are the
  index labels of the null rows, in row order.
\<close>

definition null_indices :: "int list \<Rightarrow> bool list \<Rightarrow> int list" where
  "null_indices idx null_mask = map fst (filter snd (zip idx null_mask))"

definition index_diffs :: "int list \<Rightarrow> int list" where
  "index_diffs xs = map (\<lambda>i. xs ! (i + 1) - xs ! i) [0..<length xs - 1]"

definition detect_missing_pattern :: "int list \<Rightarrow> bool list \<Rightarrow> string" where
  "detect_missing_pattern idx null_mask =
     (let ni = null_indices idx null_mask in
      if ni = [] then ''none''
      else if ni = range_index (length ni) then ''block''
      else if length ni > 1 \<and> length (remdups (index_diffs ni)) = 1 then ''systematic''
      else ''random'')"

text \<open>The body of the loop of \<^verbatim>\<open>_analyze_missing_patterns\<close> for one column.\<close>

definition missing_record :: "dataframe \<Rightarrow> dtype \<times> pyval list \<Rightarrow> pydict" where
  "missing_record df col =
     (let null_mask = isnull_mask (column_series df col);
          null_count = length (filter id null_mask) in
      if null_count = 0 then
        [(''pattern'', JStr ''none''), (''count'', JInt 0), (''percentage'', JInt 0)]
      else if null_count = df_len df then
        [(''pattern'', JStr ''all_missing''), (''count'', JInt (int null_count)),
         (''percentage'', JInt 100)]
      else
        [(''pattern'', JStr (detect_missing_pattern (df_index df) null_mask)),
         (''count'', JInt (int null_count)),
         (''percentage'', JNum (fmul (np_ratio null_count (df_len df)) (Fin 100)))])"

definition analyze_missing_patterns :: "dataframe \<Rightarrow> (string \<times> pydict) list" where
  "analyze_missing_patterns df =
     fold (\<lambda>c patterns. dict_set (fst c) (missing_record df (snd c)) patterns)
       (df_columns df) []"

section \<open>Quality scorer\<close>

text \<open>
  \<^verbatim>\<open>_calculate_quality_score(profile, correlations, missing_patterns)\<close>. The three loops
  append to \<^verbatim>\<open>scores\<close> in turn; an exception of an earlier loop wins.
\<close>

definition completeness_score :: "pydict \<Rightarrow> pyexn + fnum" where
  "completeness_score col_profile =
     ebind (as_number (case dict_get col_profile ''null_percentage'' of
                         None \<Rightarrow> JInt 0 | Some v \<Rightarrow> v))
       (\<lambda>null_percentage. Inr (fsub (Fin 100) null_percentage))"

definition outlier_score :: "pydict \<Rightarrow> pyexn + fnum list" where
  "outlier_score col_profile =
     (if dict_get col_profile ''dtype'' = Some (JStr ''numeric'')
         \<and> dict_get col_profile ''outliers'' \<noteq> None then
        ebind (subscript col_profile ''outliers'') (\<lambda>outliers.
        ebind (jv_subscript outliers ''count'') (\<lambda>oc.
        ebind (subscript col_profile ''count'') (\<lambda>tc.
        ebind (as_number oc) (\<lambda>outlier_count.
        ebind (as_number tc) (\<lambda>total_count.
        ebind (py_truediv outlier_count total_count) (\<lambda>q.
          let outlier_percentage = fmul q (Fin 100) in
          Inr [fsub (Fin 100) (fmin (fmul outlier_percentage (Fin 10)) (Fin 100))]))))))
      else Inr [])"

definition pattern_score :: "pydict \<Rightarrow> pyexn + fnum" where
  "pattern_score pattern_info =
     ebind (subscript pattern_info ''pattern'') (\<lambda>pattern.
       if pattern = JStr ''random'' then
         ebind (subscript pattern_info ''percentage'') (\<lambda>pc.
         ebind (as_number pc) (\<lambda>percentage.
           Inr (fsub (Fin 100) (fmul percentage (Fin (3 / 2))))))
       else if pattern = JStr ''systematic'' then
         ebind (subscript pattern_info ''percentage'') (\<lambda>pc.
         ebind (as_number pc) (\<lambda>percentage.
           Inr (fsub (Fin 100) (fmul percentage (Fin (7 / 10))))))
       else Inr (Fin 100))"

definition fsum :: "fnum list \<Rightarrow> fnum" where
  "fsum xs = foldl fadd (Fin 0) xs"

type_synonym correlations = "(string \<times> (string \<times> fnum) list) list"

definition calculate_quality_score ::
  "(string \<times> pydict) list \<Rightarrow> correlations \<Rightarrow> (string \<times> pydict) list \<Rightarrow> pyexn + fnum" where
  "calculate_quality_score profile correlations missing_patterns =
     ebind (emap (\<lambda>item. completeness_score (snd item)) profile) (\<lambda>s1.
     ebind (emap (\<lambda>item. outlier_score (snd item)) profile) (\<lambda>s2.
     ebind (emap (\<lambda>item. pattern_score (snd item)) missing_patterns) (\<lambda>s3.
       let scores = s1 @ concat s2 @ s3 in
       if scores \<noteq> [] then Inr (fdiv (fsum scores) (Fin (of_nat (length scores))))
       else Inr (Fin 100))))"

section \<open>The pandas interface\<close>

text \<open>
  Python equality and hashing, as \<^verbatim>\<open>series.unique()\<close>, \<^verbatim>\<open>series.nunique()\<close> and \<^verbatim>\<open>set\<close>
  membership see them: \<^verbatim>\<open>True == 1 == 1.0\<close> and \<^verbatim>\<open>False == 0 == 0.0\<close> with equal hashes,
  a \<^verbatim>\<open>Timestamp\<close> equals the \<^verbatim>\<open>datetime\<close> of the same instant, and \<^verbatim>\<open>dict\<close>, \<^verbatim>\<open>list\<close>
  and \<^verbatim>\<open>set\<close> are unhashable (no key).
\<close>

datatype pykey =
    K_None | K_NaN | K_NaT
  | K_num rat
  | K_str string
  | K_time int
  | K_date int
  | K_tuple string

fun py_key :: "pyval \<Rightarrow> pykey option" where
  "py_key PyNone = Some K_None"
| "py_key PyNaN = Some K_NaN"
| "py_key PyNaT = Some K_NaT"
| "py_key (PyBool b) = Some (K_num (if b then 1 else 0))"
| "py_key (PyInt i) = Some (K_num (of_int i))"
| "py_key (PyFloat r) = Some (K_num r)"
| "py_key (PyStr s) = Some (K_str s)"
| "py_key (PyDatetime t) = Some (K_time t)"
| "py_key (PyTimestamp t) = Some (K_time t)"
| "py_key (PyDate d) = Some (K_date d)"
| "py_key (PyTuple r) = Some (K_tuple r)"
| "py_key (PyDict r) = None"
| "py_key (PyList r) = None"
| "py_key (PySet r) = None"

definition unhashable :: pyexn where
  "unhashable = PyExn ''TypeError'' ''unhashable type''"

text \<open>\<^verbatim>\<open>series.unique()\<close>: the distinct values in order of first appearance, nulls included.\<close>

definition series_unique :: "series \<Rightarrow> pyexn + pykey list" where
  "series_unique s =
     (case those (map py_key (s_values s)) of
        None \<Rightarrow> Inl unhashable
      | Some ks \<Rightarrow> Inr (rev (remdups (rev ks))))"

text \<open>\<^verbatim>\<open>series.nunique()\<close>: the number of distinct non-null values.\<close>

definition nunique :: "series \<Rightarrow> pyexn + nat" where
  "nunique s =
     (case those (map py_key (filter (\<lambda>v. \<not> isnull v) (s_values s))) of
        None \<Rightarrow> Inl unhashable
      | Some ks \<Rightarrow> Inr (length (remdups ks)))"

text \<open>
  The regular expressions of \<^verbatim>\<open>_detect_patterns\<close>, by name:
  the email pattern \<^verbatim>\<open>^[a-zA-Z0-9._%+-]+@[a-zA-Z0-9.-]+\.[a-zA-Z]{2,}$\<close>,
  the phone pattern \<^verbatim>\<open>^[+\-\(\)\d\s]+$\<close> and the four date patterns
  \<^verbatim>\<open>^\d{4}-\d{2}-\d{2}$\<close>, \<^verbatim>\<open>^\d{2}/\d{2}/\d{4}$\<close>, \<^verbatim>\<open>^\d{2}-\d{2}-\d{4}$\<close>,
  \<^verbatim>\<open>^\d{4}/\d{2}/\d{2}$\<close>.
\<close>

datatype regex = Email_pattern | Phone_pattern | Date_ymd_dash | Date_mdy_slash | Date_dmy_dash
  | Date_ymd_slash

datatype reduction = R_mean | R_median | R_std | R_min | R_max | R_quantile rat

text \<open>
  What the profiler takes from pandas, numpy and the standard library, as parameters of the
  model:
  \<^item> \<open>to_numeric\<close>: \<^verbatim>\<open>pd.to_numeric(series, errors='coerce')\<close>, cell by cell, \<open>None\<close> for
    \<^verbatim>\<open>NaN\<close>;
  \<^item> \<open>to_datetime\<close>: \<^verbatim>\<open>pd.to_datetime(series, errors='coerce', format='mixed')\<close>, in
    nanoseconds, \<open>None\<close> for \<^verbatim>\<open>NaT\<close>;
  \<^item> \<open>str_match\<close>: \<^verbatim>\<open>re.match\<close> of a pattern on a string;
  \<^item> \<open>df_sample\<close>: \<^verbatim>\<open>df.sample(n=n, random_state=seed)\<close>;
  \<^item> \<open>reduce\<close>: the reductions \<^verbatim>\<open>mean\<close>, \<^verbatim>\<open>median\<close>, \<^verbatim>\<open>std\<close>, \<^verbatim>\<open>min\<close>, \<^verbatim>\<open>max\<close>,
    \<^verbatim>\<open>quantile(q)\<close> of a numeric series without nulls;
  \<^item> \<open>value_counts_head\<close>: \<^verbatim>\<open>series.value_counts().head(n).to_dict()\<close>;
  \<^item> \<open>value_counts_get\<close>: \<^verbatim>\<open>series.value_counts().get(b, 0)\<close> for a Boolean \<open>b\<close>;
  \<^item> \<open>str_len\<close>: \<^verbatim>\<open>series.str.len()\<close>, cell by cell;
  \<^item> \<open>isoformat\<close>, \<open>timedelta_str\<close>: the texts of a timestamp and of a time difference;
  \<^item> \<open>pearson\<close>: one entry of \<^verbatim>\<open>df[numeric_columns].corr()\<close>.

  A value of this record is the library as it answers during one call of \<^verbatim>\<open>execute\<close>.
  All the fields but one are functions of their arguments alone. The date parser is not:
  \<^verbatim>\<open>pd.to_datetime\<close> reads the texts \<^verbatim>\<open>'now'\<close> and \<^verbatim>\<open>'today'\<close> as the instant of the system
  clock, so that two calls made at different times are described by two records which may
  differ in \<open>to_datetime\<close>.
\<close>

record pandas =
  to_numeric :: "series \<Rightarrow> pyexn + rat option list"
  to_datetime :: "series \<Rightarrow> pyexn + int option list"
  str_match :: "regex \<Rightarrow> string \<Rightarrow> bool"
  df_sample :: "dataframe \<Rightarrow> int \<Rightarrow> nat \<Rightarrow> dataframe"
  reduce :: "reduction \<Rightarrow> rat list \<Rightarrow> fnum"
  value_counts_head :: "series \<Rightarrow> nat \<Rightarrow> pyexn + pydict"
  value_counts_get :: "series \<Rightarrow> bool \<Rightarrow> int"
  str_len :: "pyval \<Rightarrow> rat option"
  isoformat :: "int \<Rightarrow> string"
  timedelta_str :: "int \<Rightarrow> string"
  pearson :: "pyval list \<Rightarrow> pyval list \<Rightarrow> fnum"

definition notna_sum :: "'a option list \<Rightarrow> nat" where
  "notna_sum xs = length (filter (\<lambda>x. x \<noteq> None) xs)"

section \<open>Type classifier\<close>

text \<open>
  The rule for Booleans of \<^verbatim>\<open>_determine_dtype\<close>, inside its \<^verbatim>\<open>try\<close>: a \<^verbatim>\<open>TypeError\<close> of
  \<^verbatim>\<open>series.unique()\<close> skips the rule. Membership in the set
  \<^verbatim>\<open>{True, False, 'True', 'False', 'true', 'false'}\<close> is by Python equality, so \<open>1\<close> and
  \<open>0\<close> are members.
\<close>

definition boolean_like_keys :: "pykey list" where
  "boolean_like_keys =
     [K_num 1, K_num 0, K_str ''True'', K_str ''False'', K_str ''true'', K_str ''false'']"

definition boolean_rule :: "series \<Rightarrow> bool" where
  "boolean_rule s =
     (case series_unique s of
        Inl e \<Rightarrow> False
      | Inr unique_vals \<Rightarrow>
          if s_dtype s = D_bool then True
          else length unique_vals = 2 \<and> list_all (\<lambda>k. k \<in> set boolean_like_keys) unique_vals)"

definition datetime_types :: "pytype list" where
  "datetime_types = [T_str, T_datetime, T_Timestamp, T_date]"

definition complex_types :: "pytype list" where
  "complex_types = [T_dict, T_list, T_tuple, T_set]"

text \<open>
  \<^verbatim>\<open>_determine_dtype(series)\<close>. The thresholds \<^verbatim>\<open>0.9\<close> and \<^verbatim>\<open>0.7\<close> are compared as exact
  rationals.
\<close>

definition numeric_string_rule :: "pandas \<Rightarrow> series \<Rightarrow> string" where
  "numeric_string_rule P s =
     (case to_numeric P s of
        Inl e \<Rightarrow> ''string''
      | Inr numeric_series \<Rightarrow>
          let valid_numeric = notna_sum numeric_series in
          if flt (Fin (9 / 10)) (np_ratio valid_numeric (s_len s)) then ''numeric''
          else if valid_numeric > 0 then ''mixed''
          else ''string'')"

definition determine_dtype :: "pandas \<Rightarrow> series \<Rightarrow> string" where
  "determine_dtype P s =
     (if s_len s = 0 then ''text''
      else if is_datetime64_any_dtype (s_dtype s) then ''datetime''
      else if boolean_rule s then ''boolean''
      else if is_numeric_dtype (s_dtype s) then ''numeric''
      else if list_all is_str (take 100 (s_values s)) then numeric_string_rule P s
      else
        let types = remdups (map py_type (filter (\<lambda>x. x \<noteq> PyNone) (s_values s))) in
        if length types > 1 then
          (if list_all (\<lambda>t. t \<in> set datetime_types) types then
             (case to_datetime P s of
                Inl e \<Rightarrow> ''mixed''
              | Inr parsed \<Rightarrow> if notna_sum parsed = s_len s then ''datetime'' else ''mixed'')
           else if list_ex (\<lambda>t. t \<in> set types) complex_types then ''object''
           else ''mixed'')
        else if (case to_datetime P s of
                   Inl e \<Rightarrow> False
                 | Inr parsed \<Rightarrow>
                     notna_sum parsed > 0 \<and>
                     flt (Fin (7 / 10)) (np_ratio (notna_sum parsed) (s_len s)))
          then ''datetime''
        else if list_all is_str (take 100 (s_values s)) then ''string''
        else ''object'')"

section \<open>Column profiler\<close>

text \<open>
  \<^verbatim>\<open>_profile_numeric(series)\<close>. The outlier fences are \<open>q1 - 2 iqr\<close> and \<open>q3 + 2 iqr\<close>; the
  listed values and index labels are capped at the first hundred.
\<close>

definition numeric_dropna :: "int list \<Rightarrow> rat option list \<Rightarrow> (int \<times> rat) list" where
  "numeric_dropna idx xs =
     concat (map (\<lambda>p. case snd p of None \<Rightarrow> [] | Some x \<Rightarrow> [(fst p, x)]) (zip idx xs))"

definition profile_numeric :: "pandas \<Rightarrow> series \<Rightarrow> pyexn + pydict" where
  "profile_numeric P s =
     ebind (to_numeric P s) (\<lambda>coerced.
       let numeric_series = numeric_dropna (s_index s) coerced;
           xs = map snd numeric_series;
           std = reduce P R_std xs;
           std_dev = (if std = NaN \<or> length xs = 1 then Fin 0 else std);
           q1 = reduce P (R_quantile (1 / 4)) xs;
           q3 = reduce P (R_quantile (3 / 4)) xs;
           iqr = fsub q3 q1;
           lower_bound = fsub q1 (fmul (Fin 2) iqr);
           upper_bound = fadd q3 (fmul (Fin 2) iqr);
           outliers = filter (\<lambda>p. flt (Fin (snd p)) lower_bound \<or> flt upper_bound (Fin (snd p)))
                        numeric_series
       in Inr [(''mean'', JNum (reduce P R_mean xs)),
               (''median'', JNum (reduce P R_median xs)),
               (''std_dev'', JNum std_dev),
               (''min'', JNum (reduce P R_min xs)),
               (''max'', JNum (reduce P R_max xs)),
               (''q1'', JNum q1),
               (''q3'', JNum q3),
               (''outliers'', JDict
                  [(''count'', JInt (int (length outliers))),
                   (''values'', JList (map (\<lambda>p. JNum (Fin (snd p))) (take 100 outliers))),
                   (''indices'', JList (map (\<lambda>p. JInt (fst p)) (take 100 outliers)))])])"

text \<open>
  \<^verbatim>\<open>_profile_string(series)\<close>. Each \<^verbatim>\<open>try\<close> catches one exception class only; another
  class propagates. The \<^verbatim>\<open>.str\<close> accessor raises \<^verbatim>\<open>AttributeError\<close> on a series that is
  not of object storage.
\<close>

definition somes :: "'a option list \<Rightarrow> 'a list" where
  "somes xs = concat (map (\<lambda>x. case x of None \<Rightarrow> [] | Some y \<Rightarrow> [y]) xs)"

definition profile_string :: "pandas \<Rightarrow> series \<Rightarrow> pyexn + pydict" where
  "profile_string P s =
     (let unique_count = (case nunique s of Inl e \<Rightarrow> None | Inr n \<Rightarrow> Some n);
          profile1 =
            [(''unique_count'', case unique_count of None \<Rightarrow> JNone | Some n \<Rightarrow> JInt (int n)),
             (''unique_percentage'',
                case unique_count of
                  None \<Rightarrow> JNone
                | Some n \<Rightarrow> JNum (fmul (np_ratio n (s_len s)) (Fin 100)))];
          lens = somes (map (str_len P) (s_values s));
          lengths =
            (if s_dtype s = D_object then
               [(''avg_length'', JNum (reduce P R_mean lens)),
                (''min_length'', JNum (reduce P R_min lens)),
                (''max_length'', JNum (reduce P R_max lens))]
             else
               [(''avg_length'', JNone), (''min_length'', JNone), (''max_length'', JNone)])
      in case value_counts_head P s 10 of
           Inr most_common \<Rightarrow>
             Inr (profile1 @
                  [(''most_common_values'', JDict most_common),
                   (''is_potential_id'',
                      JBool (case unique_count of
                               None \<Rightarrow> False
                             | Some n \<Rightarrow> n \<noteq> 0 \<and> n = s_len s))] @ lengths)
         | Inl e \<Rightarrow>
             if exn_class e = ''TypeError'' then
               Inr (profile1 @
                    [(''most_common_values'', JDict []), (''is_potential_id'', JBool False)]
                    @ lengths)
             else Inl e)"

text \<open>
  \<^verbatim>\<open>_detect_date_frequency(series)\<close> on timestamps in nanoseconds. \<^verbatim>\<open>diffs.mode()[0]\<close> is
  the smallest of the most frequent differences; \<^verbatim>\<open>.days\<close> is the whole number of days.
\<close>

definition day_ns :: int where
  "day_ns = 86400000000000"

definition consecutive_diffs :: "int list \<Rightarrow> int list" where
  "consecutive_diffs xs = map (\<lambda>i. xs ! (i + 1) - xs ! i) [0..<length xs - 1]"

definition mode0 :: "int list \<Rightarrow> int" where
  "mode0 ds =
     (let top = Max (set (map (count_list ds) ds))
      in Min (set (filter (\<lambda>d. count_list ds d = top) ds)))"

definition detect_date_frequency :: "pandas \<Rightarrow> int list \<Rightarrow> string" where
  "detect_date_frequency P ts =
     (if length ts < 2 then ''insufficient_data''
      else
        let diffs = consecutive_diffs (sort ts) in
        if diffs = [] then ''unknown''
        else
          let most_common_diff = mode0 diffs;
              days = most_common_diff div day_ns in
          if most_common_diff = day_ns then ''daily''
          else if most_common_diff = 7 * day_ns then ''weekly''
          else if 28 \<le> days \<and> days \<le> 31 then ''monthly''
          else if 365 \<le> days \<and> days \<le> 366 then ''yearly''
          else ''custom ('' @ timedelta_str P most_common_diff @ '')'')"

definition profile_datetime :: "pandas \<Rightarrow> series \<Rightarrow> pyexn + pydict" where
  "profile_datetime P s =
     ebind (to_datetime P s) (\<lambda>parsed.
       let dt_series = somes parsed in
       if dt_series = [] then Inr []
       else Inr [(''date_range'', JDict
                    [(''min'', JStr (isoformat P (Min (set dt_series)))),
                     (''max'', JStr (isoformat P (Max (set dt_series))))]),
                 (''frequency'', JStr (detect_date_frequency P dt_series))])"

definition profile_boolean :: "pandas \<Rightarrow> series \<Rightarrow> pydict" where
  "profile_boolean P s =
     [(''true_count'', JInt (value_counts_get P s True)),
      (''false_count'', JInt (value_counts_get P s False)),
      (''true_percentage'',
         JNum (fmul (fdiv (Fin (of_int (value_counts_get P s True))) (Fin (of_nat (s_len s))))
                 (Fin 100)))]"

text \<open>\<^verbatim>\<open>_profile_mixed(series)\<close> counts the cells by the name of their type.\<close>

definition count_type :: "pyval \<Rightarrow> (string \<times> nat) list \<Rightarrow> (string \<times> nat) list" where
  "count_type v type_counts =
     (let type_name = type_name (py_type v)
      in dict_set type_name
           ((case dict_get type_counts type_name of None \<Rightarrow> 0 | Some c \<Rightarrow> c) + 1)
           type_counts)"

definition nunique_or_none :: "series \<Rightarrow> jv" where
  "nunique_or_none s = (case nunique s of Inl e \<Rightarrow> JNone | Inr n \<Rightarrow> JInt (int n))"

definition profile_mixed :: "series \<Rightarrow> pydict" where
  "profile_mixed s =
     [(''type_distribution'',
         JDict (map (\<lambda>p. (fst p, JInt (int (snd p)))) (fold count_type (s_values s) []))),
      (''unique_count'', nunique_or_none s)]"

definition profile_object :: "series \<Rightarrow> pydict" where
  "profile_object s = [(''unique_count'', nunique_or_none s), (''type'', JStr ''object'')]"

text \<open>\<^verbatim>\<open>_profile_column(series, column_name, pattern_threshold)\<close>.\<close>

definition profile_column :: "pandas \<Rightarrow> series \<Rightarrow> string \<Rightarrow> rat \<Rightarrow> pyexn + pydict" where
  "profile_column P s column_name pattern_threshold =
     (let profile =
            [(''count'', JInt (int (s_len s))),
             (''null_count'', JInt (int (isnull_sum s))),
             (''null_percentage'', JNum (fmul (np_ratio (isnull_sum s) (s_len s)) (Fin 100)))];
          non_null = dropna s
      in if s_len non_null = 0 then Inr (dict_set ''dtype'' (JStr ''all_null'') profile)
         else
           let dtype = determine_dtype P non_null;
               profile = dict_set ''dtype'' (JStr dtype) profile
           in ebind
                (if dtype = ''numeric'' then profile_numeric P non_null
                 else if dtype = ''string'' then profile_string P non_null
                 else if dtype = ''datetime'' then profile_datetime P non_null
                 else if dtype = ''boolean'' then Inr (profile_boolean P non_null)
                 else if dtype = ''mixed'' then Inr (profile_mixed non_null)
                 else Inr (profile_object non_null))
                (\<lambda>stats. Inr (dict_update profile stats)))"

section \<open>Pattern detector\<close>

text \<open>
  \<^verbatim>\<open>_detect_patterns(series, column_name, threshold)\<close>. \<^verbatim>\<open>non_null.str.match(p).sum()\<close>
  counts the text cells that match. The test for an identifier and the categorical and
  continuous tests read \<^verbatim>\<open>series\<close>, the column with its missing cells, not \<^verbatim>\<open>non_null\<close>.
\<close>

definition match_count :: "pandas \<Rightarrow> regex \<Rightarrow> series \<Rightarrow> nat" where
  "match_count P r s =
     length (filter (\<lambda>v. case v of PyStr x \<Rightarrow> str_match P r x | _ \<Rightarrow> False) (s_values s))"

definition fge :: "fnum \<Rightarrow> rat \<Rightarrow> bool" where
  "fge a t = (case a of NaN \<Rightarrow> False | Fin x \<Rightarrow> t \<le> x)"

definition string_patterns :: "pandas \<Rightarrow> series \<Rightarrow> rat \<Rightarrow> pydict" where
  "string_patterns P s threshold =
     (let non_null = dropna s;
          n = s_len non_null;
          is_email = fge (np_ratio (match_count P Email_pattern non_null) n) threshold;
          is_phone = fge (np_ratio (match_count P Phone_pattern non_null) n) threshold;
          is_date =
            (if determine_dtype P s = ''datetime'' then True
             else
               let date_matches =
                     match_count P Date_ymd_dash non_null + match_count P Date_mdy_slash non_null
                     + match_count P Date_dmy_dash non_null + match_count P Date_ymd_slash non_null
               in fge (np_ratio date_matches n) threshold);
          is_id = (case nunique s of Inl e \<Rightarrow> False | Inr u \<Rightarrow> u = s_len s)
      in [(''is_email'', JBool is_email), (''is_phone'', JBool is_phone),
          (''is_date'', JBool is_date), (''is_id'', JBool is_id)])"

definition is_categorical :: "series \<Rightarrow> bool" where
  "is_categorical s =
     (case nunique s of
        Inl e \<Rightarrow> False
      | Inr unique_count \<Rightarrow>
          unique_count \<le> 10
          \<or> (flt (np_ratio unique_count (s_len s)) (Fin (1 / 20)) \<and> unique_count < 50))"

definition is_continuous :: "pandas \<Rightarrow> series \<Rightarrow> bool" where
  "is_continuous P s =
     (case to_numeric P s of
        Inl e \<Rightarrow> False
      | Inr numeric_series \<Rightarrow>
          if notna_sum numeric_series > 0 then
            flt (Fin (1 / 2))
              (np_ratio (length (remdups (somes numeric_series))) (length numeric_series))
          else False)"

definition detect_patterns :: "pandas \<Rightarrow> series \<Rightarrow> string \<Rightarrow> rat \<Rightarrow> pydict" where
  "detect_patterns P s column_name threshold =
     (let non_null = dropna s in
      if s_len non_null = 0 then []
      else
        (if list_all is_str (take 100 (s_values non_null)) then string_patterns P s threshold
         else [])
        @ [(''is_categorical'', JBool (is_categorical s)),
           (''is_continuous'', JBool (is_continuous P s))])"

section \<open>Correlation analyzer\<close>

text \<open>
  \<^verbatim>\<open>_calculate_correlations(df)\<close>: the columns selected by
  \<^verbatim>\<open>select_dtypes(include=[np.number])\<close>, and for each of them the dictionary of its
  coefficients with the others.
\<close>

definition numeric_columns :: "dataframe \<Rightarrow> (string \<times> dtype \<times> pyval list) list" where
  "numeric_columns df = filter (\<lambda>c. is_np_number (fst (snd c))) (df_columns df)"

definition correlation_row ::
  "pandas \<Rightarrow> (string \<times> dtype \<times> pyval list) list \<Rightarrow> string \<times> dtype \<times> pyval list
     \<Rightarrow> (string \<times> fnum) list" where
  "correlation_row P cols col1 =
     fold (\<lambda>col2 row.
             if fst col1 \<noteq> fst col2
             then dict_set (fst col2) (pearson P (snd (snd col1)) (snd (snd col2))) row
             else row)
       cols []"

definition calculate_correlations :: "pandas \<Rightarrow> dataframe \<Rightarrow> correlations" where
  "calculate_correlations P df =
     (let cols = numeric_columns df in
      if length cols < 2 then []
      else fold (\<lambda>col1 correlations.
                   dict_set (fst col1) (correlation_row P cols col1) correlations)
             cols [])"

section \<open>Profiler orchestrator\<close>

text \<open>
  The input mapping is its \<^verbatim>\<open>'dataframe'\<close> entry (\<open>None\<close> when the key is absent); the
  configuration keeps each recognised option, \<open>None\<close> when the key is absent, so that
  \<^verbatim>\<open>config.get(key, default)\<close> is visible.
\<close>

datatype data_value = DataFrame dataframe | NotDataFrame

record config =
  cfg_enable_learning :: "bool option"
  cfg_sample_size :: "int option"
  cfg_pattern_threshold :: "rat option"

record metadata =
  md_sampled :: bool
  md_sample_size :: nat
  md_original_size :: nat
  md_profiled_at :: string

record profiling_data =
  r_profile :: "(string \<times> pydict) list"
  r_patterns :: "(string \<times> pydict) list"
  r_correlations :: correlations
  r_missing_patterns :: "(string \<times> pydict) list"
  r_quality_score :: fnum
  r_metadata :: metadata

record exec_result =
  res_success :: bool
  res_data :: "profiling_data option"
  res_errors :: "string list"

definition failure :: "string list \<Rightarrow> exec_result" where
  "failure errs = \<lparr>res_success = False, res_data = None, res_errors = errs\<rparr>"

text \<open>\<open>quoted x\<close> is \<open>x\<close> between two apostrophes.\<close>

definition quoted :: "string \<Rightarrow> string" where
  "quoted x = CHR 0x27 # x @ [CHR 0x27]"

definition validate_input :: "data_value option \<Rightarrow> string list" where
  "validate_input data =
     (case data of
        None \<Rightarrow> [''Missing required field: '' @ quoted ''dataframe'']
      | Some NotDataFrame \<Rightarrow> [quoted ''dataframe'' @ '' must be a pandas DataFrame'']
      | Some (DataFrame df) \<Rightarrow>
          if df_empty df then [quoted ''dataframe'' @ '' cannot be empty''] else [])"

definition validate_config :: "config \<Rightarrow> string list" where
  "validate_config cfg =
     (let sample_size = (case cfg_sample_size cfg of None \<Rightarrow> 100000 | Some n \<Rightarrow> n);
          pattern_threshold = (case cfg_pattern_threshold cfg of None \<Rightarrow> 4 / 5 | Some t \<Rightarrow> t)
      in (if sample_size < 0 then [''Invalid sample_size: must be positive''] else [])
         @ (if \<not> (0 \<le> pattern_threshold \<and> pattern_threshold \<le> 1)
            then [''Invalid pattern_threshold: must be between 0 and 1''] else []))"

text \<open>\<^verbatim>\<open>_sample_dataframe(df, sample_size)\<close>: the seed is the constant 42.\<close>

definition sample_dataframe :: "pandas \<Rightarrow> dataframe \<Rightarrow> int \<Rightarrow> dataframe" where
  "sample_dataframe P df sample_size =
     (if int (df_len df) > sample_size then df_sample P df sample_size 42 else df)"

text \<open>
  The learning history is an object outside the profiler: a state \<open>'h\<close> and three methods,
  each of which may raise and may change the state.
\<close>

record 'h learning_history =
  get_learned_patterns :: "'h \<Rightarrow> (pyexn + unit) \<times> 'h"
  suggest_column_type :: "string \<Rightarrow> 'h \<Rightarrow> (pyexn + string option) \<times> 'h"
  record_pattern :: "pydict \<Rightarrow> 'h \<Rightarrow> (pyexn + unit) \<times> 'h"

definition truthy_flag :: "pydict \<Rightarrow> string \<Rightarrow> bool" where
  "truthy_flag col_patterns k = (dict_get col_patterns k = Some (JBool True))"

definition learned_fact :: "string \<Rightarrow> pydict \<Rightarrow> pydict option" where
  "learned_fact column col_patterns =
     (if truthy_flag col_patterns ''is_id'' then
        Some [(''column'', JStr column), (''type'', JStr ''id''),
              (''confidence'', JNum (Fin (9 / 10)))]
      else if truthy_flag col_patterns ''is_email'' then
        Some [(''column'', JStr column), (''type'', JStr ''email''),
              (''confidence'', JNum (Fin (19 / 20)))]
      else if truthy_flag col_patterns ''is_phone'' then
        Some [(''column'', JStr column), (''type'', JStr ''phone''),
              (''confidence'', JNum (Fin (9 / 10)))]
      else if truthy_flag col_patterns ''is_categorical'' then
        Some [(''column'', JStr column), (''type'', JStr ''categorical''),
              (''confidence'', JNum (Fin (17 / 20)))]
      else None)"

definition apply_learning ::
  "'h learning_history \<Rightarrow> string \<Rightarrow> pydict \<Rightarrow> pydict \<Rightarrow> 'h \<Rightarrow> (pyexn + pydict) \<times> 'h" where
  "apply_learning L column col_profile col_patterns h =
     (case suggest_column_type L column h of
        (Inl e, h1) \<Rightarrow> (Inl e, h1)
      | (Inr suggested_type, h1) \<Rightarrow>
          let col_profile =
                (case suggested_type of
                   None \<Rightarrow> col_profile
                 | Some t \<Rightarrow> if t \<noteq> [] then dict_set ''suggested_type'' (JStr t) col_profile
                             else col_profile)
          in case learned_fact column col_patterns of
               None \<Rightarrow> (Inr col_profile, h1)
             | Some pattern_fact \<Rightarrow>
                 (case record_pattern L pattern_fact h1 of
                    (Inl e, h2) \<Rightarrow> (Inl e, h2)
                  | (Inr u, h2) \<Rightarrow> (Inr col_profile, h2)))"

text \<open>The loop over \<^verbatim>\<open>df.columns\<close> of \<^verbatim>\<open>execute\<close>.\<close>

fun profile_columns ::
  "pandas \<Rightarrow> 'h learning_history option \<Rightarrow> bool \<Rightarrow> rat \<Rightarrow> dataframe
     \<Rightarrow> (string \<times> dtype \<times> pyval list) list
     \<Rightarrow> (string \<times> pydict) list \<Rightarrow> (string \<times> pydict) list \<Rightarrow> 'h
     \<Rightarrow> (pyexn + (string \<times> pydict) list \<times> (string \<times> pydict) list) \<times> 'h" where
  "profile_columns P L learning threshold df [] profile patterns h =
     (Inr (profile, patterns), h)"
| "profile_columns P L learning threshold df (c # cs) profile patterns h =
     (let column = fst c; s = column_series df (snd c) in
      case profile_column P s column threshold of
        Inl e \<Rightarrow> (Inl e, h)
      | Inr col_profile \<Rightarrow>
          let col_patterns = detect_patterns P s column threshold in
          case (case L of
                  None \<Rightarrow> (Inr col_profile, h)
                | Some l \<Rightarrow>
                    if learning then apply_learning l column col_profile col_patterns h
                    else (Inr col_profile, h)) of
            (Inl e, h1) \<Rightarrow> (Inl e, h1)
          | (Inr col_profile, h1) \<Rightarrow>
              profile_columns P L learning threshold df cs
                (dict_set column col_profile profile)
                (dict_set column col_patterns patterns) h1)"

text \<open>
  The body of the \<^verbatim>\<open>try\<close> of \<^verbatim>\<open>execute\<close> after the two validations, on the validated
  table; \<open>now\<close> is the text of \<^verbatim>\<open>datetime.now().isoformat()\<close>.
\<close>

definition load_learned_patterns ::
  "'h learning_history option \<Rightarrow> bool \<Rightarrow> 'h \<Rightarrow> (pyexn + unit) \<times> 'h" where
  "load_learned_patterns L learning h =
     (case L of
        None \<Rightarrow> (Inr (), h)
      | Some l \<Rightarrow>
          if learning then
            (case get_learned_patterns l h of
               (Inl e, h1) \<Rightarrow>
                 if exn_class e = ''AttributeError'' then (Inr (), h1) else (Inl e, h1)
             | (Inr u, h1) \<Rightarrow> (Inr (), h1))
          else (Inr (), h))"

definition run_profiling ::
  "pandas \<Rightarrow> 'h learning_history option \<Rightarrow> string \<Rightarrow> 'h \<Rightarrow> dataframe \<Rightarrow> config
     \<Rightarrow> (pyexn + profiling_data) \<times> 'h" where
  "run_profiling P L now h df0 cfg =
     (let learning = (case cfg_enable_learning cfg of None \<Rightarrow> True | Some b \<Rightarrow> b);
          sample_size = (case cfg_sample_size cfg of None \<Rightarrow> 100000 | Some n \<Rightarrow> n);
          pattern_threshold = (case cfg_pattern_threshold cfg of None \<Rightarrow> 4 / 5 | Some t \<Rightarrow> t);
          original_size = df_len df0;
          sampled = (int (df_len df0) > sample_size);
          df = (if sampled then sample_dataframe P df0 sample_size else df0)
      in case load_learned_patterns L learning h of
           (Inl e, h1) \<Rightarrow> (Inl e, h1)
         | (Inr u, h1) \<Rightarrow>
             (case profile_columns P L learning pattern_threshold df (df_columns df) [] [] h1 of
                (Inl e, h2) \<Rightarrow> (Inl e, h2)
              | (Inr (profile, patterns), h2) \<Rightarrow>
                  let correlations = calculate_correlations P df;
                      missing_patterns = analyze_missing_patterns df
                  in case calculate_quality_score profile correlations missing_patterns of
                       Inl e \<Rightarrow> (Inl e, h2)
                     | Inr quality_score \<Rightarrow>
                         (Inr \<lparr>r_profile = profile, r_patterns = patterns,
                               r_correlations = correlations,
                               r_missing_patterns = missing_patterns,
                               r_quality_score = quality_score,
                               r_metadata = \<lparr>md_sampled = sampled,
                                              md_sample_size = df_len df,
                                              md_original_size = original_size,
                                              md_profiled_at = now\<rparr>\<rparr>, h2)))"

text \<open>
  \<^verbatim>\<open>execute(data, config)\<close>, with the state of the learning history before and after. The
  last two cases of the input cannot be reached behind \<open>validate_input\<close>; they are what
  \<^verbatim>\<open>data['dataframe']\<close> and \<^verbatim>\<open>len(df)\<close> would raise.
\<close>

definition execute ::
  "pandas \<Rightarrow> 'h learning_history option \<Rightarrow> string \<Rightarrow> 'h \<Rightarrow> data_value option \<Rightarrow> config
     \<Rightarrow> exec_result \<times> 'h" where
  "execute P L now h data cfg =
     (let errors = validate_input data in
      if errors \<noteq> [] then (failure errors, h)
      else
        let config_errors = validate_config cfg in
        if config_errors \<noteq> [] then (failure config_errors, h)
        else
          case data of
            Some (DataFrame df) \<Rightarrow>
              (case run_profiling P L now h df cfg of
                 (Inl e, h1) \<Rightarrow> (failure [exn_str e], h1)
               | (Inr result, h1) \<Rightarrow>
                   (\<lparr>res_success = True, res_data = Some result, res_errors = []\<rparr>, h1))
          | Some NotDataFrame \<Rightarrow> (failure [''object has no len()''], h)
          | None \<Rightarrow> (failure [quoted ''dataframe''], h))"

section \<open>The claims in the specification's words\<close>



definition successive_gaps :: "nat list \<Rightarrow> int list" where
  "successive_gaps ps = map (\<lambda>p. int (snd p) - int (fst p)) (zip ps (tl ps))"

definition equal_gaps :: "nat list \<Rightarrow> bool" where
  "equal_gaps ps \<longleftrightarrow>
     list_all (\<lambda>g. list_all (\<lambda>h. g = h) (successive_gaps ps)) (successive_gaps ps)"


text \<open>
  The classification of the missing-pattern analyzer by positions, with the precedence of
  the specification; \<open>systematic\<close> asks for at least two missing rows.
\<close>

definition position_pattern :: "nat \<Rightarrow> nat \<Rightarrow> nat list \<Rightarrow> string" where
  "position_pattern n k ps =
     (if k = 0 then ''none''
      else if k = n then ''all_missing''
      else if ps = [0..<k] then ''block''
      else if 2 \<le> k \<and> equal_gaps ps then ''systematic''
      else ''random'')"

text \<open>
  The same precedence read literally from the claim: \<open>systematic\<close> whenever all gaps are
  equal, also when there is no gap at all.
\<close>

definition position_pattern_as_claimed :: "nat \<Rightarrow> nat \<Rightarrow> nat list \<Rightarrow> string" where
  "position_pattern_as_claimed n k ps =
     (if k = 0 then ''none''
      else if k = n then ''all_missing''
      else if ps = [0..<k] then ''block''
      else if equal_gaps ps then ''systematic''
      else ''random'')"

text \<open>
  For the type classifier on a column of text: the number and the fraction of the cells
  that parse as numbers (none, when the conversion itself fails), and the case the rule
  for Booleans takes first, a column with exactly two distinct values, both among the
  spellings of \<open>True\<close> and \<open>False\<close>.
\<close>

definition parsed_count :: "pandas \<Rightarrow> series \<Rightarrow> nat" where
  "parsed_count P s = (case to_numeric P s of Inl e \<Rightarrow> 0 | Inr ns \<Rightarrow> notna_sum ns)"

definition parsed_fraction :: "pandas \<Rightarrow> series \<Rightarrow> rat" where
  "parsed_fraction P s = of_nat (parsed_count P s) / of_nat (s_len s)"

definition boolean_spellings :: "pyval list" where
  "boolean_spellings = [PyStr ''True'', PyStr ''False'', PyStr ''true'', PyStr ''false'']"

definition two_boolean_spellings :: "pyval list \<Rightarrow> bool" where
  "two_boolean_spellings vs \<longleftrightarrow>
     length (remdups vs) = 2 \<and> list_all (\<lambda>v. v \<in> set boolean_spellings) vs"

text \<open>The names of the columns with raw numeric storage, in column order.\<close>

definition numeric_storage_names :: "dataframe \<Rightarrow> string list" where
  "numeric_storage_names df =
     map fst (filter (\<lambda>c. is_np_number (fst (snd c))) (df_columns df))"

text \<open>
  The inputs that validation rejects: the table absent, not a data frame, or empty (no
  column or no row); a negative \<open>sample_size\<close> or a \<open>pattern_threshold\<close> outside the
  interval from 0 to 1.
\<close>

definition input_rejected :: "data_value option \<Rightarrow> bool" where
  "input_rejected data =
     (case data of
        None \<Rightarrow> True
      | Some NotDataFrame \<Rightarrow> True
      | Some (DataFrame df) \<Rightarrow> df_columns df = [] \<or> df_index df = [])"

definition config_rejected :: "config \<Rightarrow> bool" where
  "config_rejected cfg =
     ((case cfg_sample_size cfg of None \<Rightarrow> False | Some n \<Rightarrow> n < 0)
      \<or> (case cfg_pattern_threshold cfg of None \<Rightarrow> False | Some t \<Rightarrow> t < 0 \<or> 1 < t))"

text \<open>
  A result without the time at which it was made. The run of the profiling that has no
  learning history and no clock, and the stamping of its data with a time.
\<close>

definition without_profiled_at :: "exec_result \<Rightarrow> exec_result" where
  "without_profiled_at r =
     r\<lparr>res_data :=
          map_option (\<lambda>d. d\<lparr>r_metadata := (r_metadata d)\<lparr>md_profiled_at := []\<rparr>\<rparr>) (res_data r)\<rparr>"

definition learning_free_run :: "pandas \<Rightarrow> dataframe \<Rightarrow> config \<Rightarrow> pyexn + profiling_data" where
  "learning_free_run P df cfg =
     fst (run_profiling P (None :: unit learning_history option) [] () df cfg)"

definition stamp :: "string \<Rightarrow> profiling_data \<Rightarrow> profiling_data" where
  "stamp now d = d\<lparr>r_metadata := (r_metadata d)\<lparr>md_profiled_at := now\<rparr>\<rparr>"

text \<open>
  The sample size and the pattern threshold of a configuration, with the defaults of
  \<^verbatim>\<open>config.get\<close>. The table that is profiled: the table itself, or its sample of
  \<open>sample_size\<close> rows drawn with the seed 42 when it has more rows than that. The series on
  which the date parser can be called: each column of the profiled table, and its non-null
  part. The profiles and the patterns of the columns of a table, without learning.
\<close>

definition sample_size_of :: "config \<Rightarrow> int" where
  "sample_size_of cfg = (case cfg_sample_size cfg of None \<Rightarrow> 100000 | Some n \<Rightarrow> n)"

definition threshold_of :: "config \<Rightarrow> rat" where
  "threshold_of cfg = (case cfg_pattern_threshold cfg of None \<Rightarrow> 4 / 5 | Some t \<Rightarrow> t)"

definition profiled_table :: "pandas \<Rightarrow> dataframe \<Rightarrow> config \<Rightarrow> dataframe" where
  "profiled_table P df cfg =
     (if int (df_len df) > sample_size_of cfg then df_sample P df (sample_size_of cfg) 42
      else df)"

definition consulted_series :: "pandas \<Rightarrow> dataframe \<Rightarrow> config \<Rightarrow> series list" where
  "consulted_series P df cfg =
     concat (map (\<lambda>c. [column_series (profiled_table P df cfg) (snd c),
                        dropna (column_series (profiled_table P df cfg) (snd c))])
               (df_columns (profiled_table P df cfg)))"

definition profile_of_table ::
  "pandas \<Rightarrow> dataframe \<Rightarrow> rat \<Rightarrow> pyexn + (string \<times> pydict) list \<times> (string \<times> pydict) list" where
  "profile_of_table P T threshold =
     fst (profile_columns P (None :: unit learning_history option) False threshold T
            (df_columns T) [] [] ())"

section \<open>Example tables and instances of the interfaces\<close>



text \<open>
  An instance of the pandas interface to run the model on the example tables. It converts
  numbers and unsigned decimal numerals to numbers and every other cell to \<^verbatim>\<open>NaN\<close>, takes
  only date and time objects for dates, matches no pattern, and samples the first rows.
  The example tables hold only cells on which pandas does the same. Its standard deviation
  and correlation are not computed (\<^verbatim>\<open>NaN\<close>), and the texts of instants are placeholders.
\<close>

definition parse_decimal :: "string \<Rightarrow> rat option" where
  "parse_decimal x =
     (if x \<noteq> [] \<and> list_all (\<lambda>c. c \<in> set ''0123456789'') x
      then Some (of_nat (foldl (\<lambda>a c. 10 * a + (of_char c - 48)) 0 x))
      else None)"

fun example_numeric :: "pyval \<Rightarrow> rat option" where
  "example_numeric (PyInt i) = Some (of_int i)"
| "example_numeric (PyFloat r) = Some r"
| "example_numeric (PyBool b) = Some (if b then 1 else 0)"
| "example_numeric (PyStr x) = parse_decimal x"
| "example_numeric _ = None"

fun example_datetime :: "pyval \<Rightarrow> int option" where
  "example_datetime (PyDatetime t) = Some t"
| "example_datetime (PyTimestamp t) = Some t"
| "example_datetime _ = None"

definition example_quantile :: "rat \<Rightarrow> rat list \<Rightarrow> rat" where
  "example_quantile q xs =
     (let ys = sort xs;
          h = of_nat (length ys - 1) * q;
          lo = nat (floor h);
          hi = min (lo + 1) (length ys - 1)
      in ys ! lo + (h - of_nat lo) * (ys ! hi - ys ! lo))"

definition example_reduce :: "reduction \<Rightarrow> rat list \<Rightarrow> fnum" where
  "example_reduce r xs =
     (if xs = [] then NaN
      else case r of
             R_mean \<Rightarrow> Fin (sum_list xs / of_nat (length xs))
           | R_median \<Rightarrow> Fin (example_quantile (1 / 2) xs)
           | R_min \<Rightarrow> Fin (Min (set xs))
           | R_max \<Rightarrow> Fin (Max (set xs))
           | R_quantile q \<Rightarrow> Fin (example_quantile q xs)
           | R_std \<Rightarrow> NaN)"

fun cell_text :: "pyval \<Rightarrow> string" where
  "cell_text (PyStr x) = x"
| "cell_text v = type_name (py_type v)"

definition example_value_counts :: "series \<Rightarrow> nat \<Rightarrow> pyexn + pydict" where
  "example_value_counts s n =
     (let vs = filter (\<lambda>v. \<not> isnull v) (s_values s) in
      if list_all (\<lambda>v. py_key v \<noteq> None) vs then
        Inr (take n (map (\<lambda>v. (cell_text v, JInt (int (count_list vs v))))
                       (sort_key (\<lambda>v. - int (count_list vs v)) (rev (remdups (rev vs))))))
      else Inl unhashable)"

definition example_sample :: "dataframe \<Rightarrow> int \<Rightarrow> nat \<Rightarrow> dataframe" where
  "example_sample df n seed =
     \<lparr>df_index = take (nat n) (df_index df),
      df_columns = map (\<lambda>c. (fst c, fst (snd c), take (nat n) (snd (snd c)))) (df_columns df)\<rparr>"

definition example_pandas :: pandas where
  "example_pandas =
     \<lparr>to_numeric = (\<lambda>s. Inr (map example_numeric (s_values s))),
      to_datetime = (\<lambda>s. Inr (map example_datetime (s_values s))),
      str_match = (\<lambda>r x. False),
      df_sample = example_sample,
      reduce = example_reduce,
      value_counts_head = example_value_counts,
      value_counts_get =
        (\<lambda>s b. int (length (filter (\<lambda>v. v = PyBool b) (s_values s)))),
      str_len = (\<lambda>v. case v of PyStr x \<Rightarrow> Some (of_nat (length x)) | _ \<Rightarrow> None),
      isoformat = (\<lambda>t. ''instant''),
      timedelta_str = (\<lambda>d. ''difference''),
      pearson = (\<lambda>xs ys. NaN)\<rparr>"

text \<open>Two columns of ten text cells: nine numerals and a word, and ten numerals.\<close>

definition nine_of_ten :: series where
  "nine_of_ten =
     \<lparr>s_dtype = D_object, s_index = [0, 1, 2, 3, 4, 5, 6, 7, 8, 9],
      s_values = [PyStr ''1'', PyStr ''2'', PyStr ''3'', PyStr ''4'', PyStr ''5'',
                  PyStr ''6'', PyStr ''7'', PyStr ''8'', PyStr ''9'', PyStr ''x'']\<rparr>"

definition ten_numerals :: series where
  "ten_numerals =
     \<lparr>s_dtype = D_object, s_index = [0, 1, 2, 3, 4, 5, 6, 7, 8, 9],
      s_values = [PyStr ''1'', PyStr ''2'', PyStr ''3'', PyStr ''4'', PyStr ''5'',
                  PyStr ''6'', PyStr ''7'', PyStr ''8'', PyStr ''9'', PyStr ''10'']\<rparr>"

text \<open>
  A column of text with two distinct cells and one missing cell, and a column whose cells
  are all missing.
\<close>

definition ids_with_gap :: series where
  "ids_with_gap = \<lparr>s_dtype = D_object, s_index = [0, 1, 2],
                    s_values = [PyStr ''a'', PyStr ''b'', PyNone]\<rparr>"

definition all_missing_column :: series where
  "all_missing_column = \<lparr>s_dtype = D_object, s_index = [0, 1, 2],
                          s_values = [PyNone, PyNaN, PyNone]\<rparr>"

text \<open>
  Two columns of numeric storage and a column of numerals stored as text.
\<close>

definition df_corr :: dataframe where
  "df_corr = \<lparr>df_index = [0, 1, 2],
     df_columns = [(''a'', D_int64, [PyInt 1, PyInt 2, PyInt 3]),
                   (''b'', D_float64, [PyFloat 2, PyFloat 4, PyFloat 6]),
                   (''s'', D_object, [PyStr ''1'', PyStr ''2'', PyStr ''3''])]\<rparr>"

text \<open>
  A table of eight rows with one column of text: a single cell in row 6, the others
  missing. The configuration without any option, and the profile of that column.
\<close>

definition df_sparse_text :: dataframe where
  "df_sparse_text = \<lparr>df_index = [0, 1, 2, 3, 4, 5, 6, 7],
     df_columns = [(''c'', D_object,
        [PyNone, PyNone, PyNone, PyNone, PyNone, PyNone, PyStr ''a'', PyNone])]\<rparr>"

definition default_config :: config where
  "default_config = \<lparr>cfg_enable_learning = None, cfg_sample_size = None,
                       cfg_pattern_threshold = None\<rparr>"

definition sparse_text_profile :: pydict where
  "sparse_text_profile =
     [(''count'', JInt 8), (''null_count'', JInt 7), (''null_percentage'', JNum (Fin (175 / 2))),
      (''dtype'', JStr ''string''), (''unique_count'', JInt 1),
      (''unique_percentage'', JNum (Fin 100)),
      (''most_common_values'', JDict [(''a'', JInt 1)]), (''is_potential_id'', JBool True),
      (''avg_length'', JNum (Fin 1)), (''min_length'', JNum (Fin 1)),
      (''max_length'', JNum (Fin 1))]"

text \<open>
  The learning history manager of \<^verbatim>\<open>src/utils/learning_history.py\<close> defines none of the
  three methods the profiler calls: each call raises \<^verbatim>\<open>AttributeError\<close>. A configuration
  with a negative sample size.
\<close>

definition no_attribute :: "string \<Rightarrow> pyexn" where
  "no_attribute m =
     PyExn ''AttributeError''
       (quoted ''LearningHistoryManager'' @ '' object has no attribute '' @ quoted m)"

definition manager_without_methods :: "'h learning_history" where
  "manager_without_methods =
     \<lparr>get_learned_patterns = (\<lambda>h. (Inl (no_attribute ''get_learned_patterns''), h)),
      suggest_column_type = (\<lambda>column h. (Inl (no_attribute ''suggest_column_type''), h)),
      record_pattern = (\<lambda>p h. (Inl (no_attribute ''record_pattern''), h))\<rparr>"

definition negative_sample_config :: config where
  "negative_sample_config = \<lparr>cfg_enable_learning = None, cfg_sample_size = Some (- 5),
                               cfg_pattern_threshold = None\<rparr>"

text \<open>
  A configuration with learning disabled and a sample size of three rows, and a sampler
  that agrees with the one of the example instance at seed 42 only.
\<close>

definition sampling_config :: config where
  "sampling_config = \<lparr>cfg_enable_learning = Some False, cfg_sample_size = Some 3,
                        cfg_pattern_threshold = None\<rparr>"

definition other_seeds_sampler :: "dataframe \<Rightarrow> int \<Rightarrow> nat \<Rightarrow> dataframe" where
  "other_seeds_sampler df n seed = (if seed = 42 then example_sample df n seed else df)"

text \<open>
  The example instance at the clock reading \<open>t\<close>: its date parser reads the text
  \<^verbatim>\<open>'now'\<close> as the instant \<open>t\<close>. A table with one column that holds the timestamp of the
  instant 0 and the text \<^verbatim>\<open>'now'\<close>, and a configuration that only disables learning.
\<close>

definition clocked_datetime :: "int \<Rightarrow> pyval \<Rightarrow> int option" where
  "clocked_datetime t v = (if v = PyStr ''now'' then Some t else example_datetime v)"

definition clocked_pandas :: "int \<Rightarrow> pandas" where
  "clocked_pandas t =
     example_pandas\<lparr>to_datetime := (\<lambda>s. Inr (map (clocked_datetime t) (s_values s)))\<rparr>"

definition df_now :: dataframe where
  "df_now = \<lparr>df_index = [0, 1],
              df_columns = [(''when'', D_object, [PyTimestamp 0, PyStr ''now''])]\<rparr>"

definition learning_off_config :: config where
  "learning_off_config = \<lparr>cfg_enable_learning = Some False, cfg_sample_size = None,
                            cfg_pattern_threshold = None\<rparr>"

section \<open>Properties of the missing-pattern analyzer\<close>




lemma dict_get_dict_set:
  "dict_get (dict_set k v d) k' = (if k' = k then Some v else dict_get d k')"
  by (induction d) (auto simp: dict_get_def)











lemma claimed_pattern_differs_for_one_null_only:
  assumes "length ps = k" "k \<noteq> 1"
  shows "position_pattern_as_claimed n k ps = position_pattern n k ps"
  using assms by (auto simp: position_pattern_as_claimed_def position_pattern_def)

section \<open>Properties of the quality scorer\<close>

text \<open>
  Claim C9. The quality score does not depend on the correlations argument: for every
  profile mapping and missing-pattern mapping, any two correlation mappings give the same
  result (the same score, or the same exception).
\<close>

theorem quality_score_ignores_correlations:
  "calculate_quality_score profile c1 missing_patterns =
   calculate_quality_score profile c2 missing_patterns"
  by (simp add: calculate_quality_score_def)

section \<open>Properties of the type classifier\<close>

lemma all_str_map: "list_all is_str vs \<Longrightarrow> \<exists>ss. vs = map PyStr ss"
proof (induction vs)
  case Nil
  then show ?case by simp
next
  case (Cons v vs)
  then obtain ss where "vs = map PyStr ss" by auto
  moreover from Cons.prems obtain x where "v = PyStr x" by (cases v) auto
  ultimately have "v # vs = map PyStr (x # ss)" by simp
  then show ?case by (rule exI)
qed

lemma those_map_Some: "those (map (\<lambda>x. Some (f x)) xs) = Some (map f xs)"
  by (induction xs) auto

lemma length_remdups_inj:
  assumes "inj f"
  shows "length (remdups (map f xs)) = length (remdups xs)"
proof -
  have "card (f ` set xs) = card (set xs)" using assms by (simp add: card_image inj_on_def inj_def)
  then show ?thesis by (simp add: length_remdups_card_conv)
qed

lemma boolean_rule_strings:
  assumes "s_dtype s = D_object" "list_all is_str (s_values s)"
  shows "boolean_rule s \<longleftrightarrow> two_boolean_spellings (s_values s)"
proof -
  from assms(2) obtain ss where ss: "s_values s = map PyStr ss" using all_str_map by blast
  have k: "map py_key (s_values s) = map (\<lambda>x. Some (K_str x)) ss" by (simp add: ss)
  have u: "series_unique s = Inr (rev (remdups (rev (map K_str ss))))"
    unfolding series_unique_def k those_map_Some by simp
  have l1: "length (rev (remdups (rev (map K_str ss)))) = length (remdups ss)"
  proof -
    have "length (rev (remdups (rev (map K_str ss)))) = card (set (map K_str ss))"
      by (simp add: length_remdups_card_conv)
    also have "\<dots> = length (remdups (map K_str ss))" by (simp add: length_remdups_card_conv)
    also have "\<dots> = length (remdups ss)" by (rule length_remdups_inj) (simp add: inj_def)
    finally show ?thesis .
  qed
  have l2: "length (remdups (s_values s)) = length (remdups ss)"
    unfolding ss by (rule length_remdups_inj) (simp add: inj_def)
  have m: "list_all (\<lambda>k. k \<in> set boolean_like_keys) (rev (remdups (rev (map K_str ss))))
           \<longleftrightarrow> list_all (\<lambda>v. v \<in> set boolean_spellings) (s_values s)"
    unfolding ss by (auto simp: list_all_iff boolean_like_keys_def boolean_spellings_def)
  show ?thesis
    unfolding boolean_rule_def u two_boolean_spellings_def using assms(1) l1 l2 m by simp
qed

lemma numeric_string_rule_fraction:
  assumes "s_values s \<noteq> []"
  shows "numeric_string_rule P s =
     (if 9 / 10 < parsed_fraction P s then ''numeric''
      else if 0 < parsed_fraction P s then ''mixed''
      else ''string'')"
proof -
  have n: "0 < s_len s" using assms by (simp add: s_len_def)
  show ?thesis
  proof (cases "to_numeric P s")
    case (Inl e)
    then show ?thesis
      by (simp add: numeric_string_rule_def parsed_fraction_def parsed_count_def)
  next
    case (Inr ns)
    then show ?thesis using n
      by (simp add: numeric_string_rule_def parsed_fraction_def parsed_count_def Let_def
            np_ratio_def zero_less_divide_iff)
  qed
qed

text \<open>
  Claim C5, as the code has it. For every non-empty column of object storage whose cells
  are all text, and which the rule for Booleans does not take first (it has not exactly
  two distinct values, both among \<open>True\<close>, \<open>False\<close>, \<open>true\<close>, \<open>false\<close>), the type
  classifier returns \<open>numeric\<close> when the fraction of cells that parse as numbers is
  strictly greater than 90%, \<open>mixed\<close> when that fraction is positive and at most 90%, and
  \<open>string\<close> when no cell parses.
\<close>

theorem string_column_classification:
  assumes "s_dtype s = D_object" and "s_values s \<noteq> []" and "list_all is_str (s_values s)"
    and "\<not> two_boolean_spellings (s_values s)"
  shows "determine_dtype P s =
     (if 9 / 10 < parsed_fraction P s then ''numeric''
      else if 0 < parsed_fraction P s then ''mixed''
      else ''string'')"
proof -
  have b: "\<not> boolean_rule s" using assms boolean_rule_strings by blast
  have h: "list_all is_str (take 100 (s_values s))"
    using assms(3) by (auto simp: list_all_iff dest: in_set_takeD)
  have "determine_dtype P s = numeric_string_rule P s"
    using assms(1,2) b h by (simp add: determine_dtype_def s_len_def)
  then show ?thesis using numeric_string_rule_fraction [OF assms(2)] by simp
qed

theorem string_column_classification_witness:
  "s_dtype ten_numerals = D_object \<and> s_values ten_numerals \<noteq> []
   \<and> list_all is_str (s_values ten_numerals)
   \<and> \<not> two_boolean_spellings (s_values ten_numerals)
   \<and> parsed_fraction example_pandas ten_numerals = 1
   \<and> determine_dtype example_pandas ten_numerals = ''numeric''"
proof -
  have h1: "s_dtype ten_numerals = D_object" by (simp add: ten_numerals_def)
  have h2: "s_values ten_numerals \<noteq> []" by (simp add: ten_numerals_def)
  have h3: "list_all is_str (s_values ten_numerals)" by (simp add: ten_numerals_def)
  have h4: "\<not> two_boolean_spellings (s_values ten_numerals)"
    by (simp add: ten_numerals_def two_boolean_spellings_def)
  have pf: "parsed_fraction example_pandas ten_numerals = 1"
    by (simp add: parsed_fraction_def parsed_count_def example_pandas_def ten_numerals_def
          notna_sum_def parse_decimal_def s_len_def)
  show ?thesis
    using h1 h2 h3 h4 pf string_column_classification [OF h1 h2 h3 h4, of example_pandas]
    by simp
qed

text \<open>
  The claim as stated fails at exactly 90%: of ten text cells nine parse, the source tests
  \<^verbatim>\<open>valid_numeric / len(series) > 0.9\<close>, and the column is \<open>mixed\<close>, not \<open>numeric\<close>.
\<close>

theorem nine_of_ten_is_mixed:
  "parsed_fraction example_pandas nine_of_ten = 9 / 10
   \<and> determine_dtype example_pandas nine_of_ten = ''mixed''"
  by (simp add: parsed_fraction_def parsed_count_def example_pandas_def nine_of_ten_def
        notna_sum_def parse_decimal_def s_len_def determine_dtype_def boolean_rule_def
        series_unique_def numeric_string_rule_def np_ratio_def Let_def)

text \<open>
  Claim C4 asks for \<open>numeric\<close> on a column of integers with exactly the two values 0 and 1.
  The source returns \<open>boolean\<close>: \<^verbatim>\<open>set(unique_vals).issubset({True, False, ...})\<close> holds for
  \<open>{0, 1}\<close>, since \<^verbatim>\<open>0 == False\<close> and \<^verbatim>\<open>1 == True\<close> in Python, although the comment above
  the test says that 0/1 is not meant.
\<close>

theorem zero_one_column_is_boolean:
  "determine_dtype P \<lparr>s_dtype = D_int64, s_index = [0, 1, 2, 3],
      s_values = [PyInt 0, PyInt 1, PyInt 0, PyInt 1]\<rparr> = ''boolean''"
  by (simp add: determine_dtype_def s_len_def boolean_rule_def series_unique_def
        boolean_like_keys_def)

section \<open>Properties of the pattern detector and of the column profiler\<close>

lemma dropna_all_null:
  assumes "list_all isnull (s_values s)"
  shows "s_values (dropna s) = []"
proof -
  have "filter (\<lambda>p. \<not> isnull (snd p)) (zip (s_index s) (s_values s)) = []"
    using assms by (auto simp: filter_empty_conv list_all_iff dest: set_zip_rightD)
  then show ?thesis by (simp add: dropna_def)
qed

lemma isnull_sum_all_null:
  assumes "list_all isnull (s_values s)"
  shows "isnull_sum s = s_len s"
  using assms by (simp add: isnull_sum_def s_len_def list_all_iff)

text \<open>
  Claim C10. For every column whose cells are all missing, the pattern detector returns the
  empty mapping, so none of the six flags is present, and the profile holds exactly
  \<open>count\<close>, \<open>null_count\<close>, \<open>null_percentage\<close> and the dtype \<open>all_null\<close>.
\<close>

theorem all_missing_column_profile:
  assumes "list_all isnull (s_values s)"
  shows "detect_patterns P s column threshold = []
     \<and> (\<exists>pct. profile_column P s column threshold =
            Inr [(''count'', JInt (int (s_len s))), (''null_count'', JInt (int (s_len s))),
                 (''null_percentage'', JNum pct), (''dtype'', JStr ''all_null'')]
          \<and> (s_values s \<noteq> [] \<longrightarrow> pct = Fin 100))"
proof -
  have e: "s_len (dropna s) = 0" using dropna_all_null [OF assms] by (simp add: s_len_def)
  have n: "isnull_sum s = s_len s" using assms by (rule isnull_sum_all_null)
  have p: "detect_patterns P s column threshold = []"
    using e by (simp add: detect_patterns_def)
  have q: "profile_column P s column threshold =
            Inr [(''count'', JInt (int (s_len s))), (''null_count'', JInt (int (s_len s))),
                 (''null_percentage'', JNum (fmul (np_ratio (s_len s) (s_len s)) (Fin 100))),
                 (''dtype'', JStr ''all_null'')]"
    using e n by (simp add: profile_column_def)
  have r: "s_values s \<noteq> [] \<longrightarrow> fmul (np_ratio (s_len s) (s_len s)) (Fin 100) = Fin 100"
    by (simp add: np_ratio_def s_len_def)
  from p q r show ?thesis by blast
qed

theorem all_missing_column_profile_witness:
  "list_all isnull (s_values all_missing_column)
   \<and> detect_patterns example_pandas all_missing_column ''c'' (4 / 5) = []
   \<and> profile_column example_pandas all_missing_column ''c'' (4 / 5) =
        Inr [(''count'', JInt 3), (''null_count'', JInt 3),
             (''null_percentage'', JNum (Fin 100)), (''dtype'', JStr ''all_null'')]"
proof -
  have h: "list_all isnull (s_values all_missing_column)" by (simp add: all_missing_column_def)
  have l: "s_len all_missing_column = 3" "s_values all_missing_column \<noteq> []"
    by (simp_all add: all_missing_column_def s_len_def)
  show ?thesis
    using h l all_missing_column_profile [OF h, of example_pandas "''c''" "4 / 5"]
    by auto
qed

lemma dropna_values: "s_values (dropna s) = filter (\<lambda>v. \<not> isnull v) (s_values s)"
  if "length (s_index s) = length (s_values s)"
proof -
  have "map snd (filter (\<lambda>p. \<not> isnull (snd p)) (zip idx vs)) = filter (\<lambda>v. \<not> isnull v) vs"
    if "length idx = length vs" for idx :: "int list" and vs
    using that by (induction idx vs rule: list_induct2) auto
  with that show ?thesis by (simp add: dropna_def)
qed

lemma nunique_text:
  assumes "list_all is_str (filter (\<lambda>v. \<not> isnull v) (s_values s))"
  shows "nunique s = Inr (card (set (filter (\<lambda>v. \<not> isnull v) (s_values s))))"
proof -
  let ?vs = "filter (\<lambda>v. \<not> isnull v) (s_values s)"
  from assms obtain ss where ss: "?vs = map PyStr ss" using all_str_map by blast
  have "map py_key ?vs = map (\<lambda>x. Some (K_str x)) ss" unfolding ss by simp
  then have "nunique s = Inr (length (remdups (map K_str ss)))"
    unfolding nunique_def by (simp add: those_map_Some)
  also have "length (remdups (map K_str ss)) = length (remdups (map PyStr ss))"
    using length_remdups_inj [of K_str ss] length_remdups_inj [of PyStr ss]
    by (simp add: inj_def)
  finally show ?thesis by (simp add: ss length_remdups_card_conv)
qed

lemma is_id_text_column:
  assumes len: "length (s_index s) = length (s_values s)"
    and tx: "list_all is_str (filter (\<lambda>v. \<not> isnull v) (s_values s))"
    and ne: "filter (\<lambda>v. \<not> isnull v) (s_values s) \<noteq> []"
  shows "dict_get (detect_patterns P s column threshold) ''is_id'' =
           Some (JBool (list_all (\<lambda>v. \<not> isnull v) (s_values s) \<and> distinct (s_values s)))"
proof -
  let ?vs = "filter (\<lambda>v. \<not> isnull v) (s_values s)"
  have dv: "s_values (dropna s) = ?vs" using len by (rule dropna_values)
  have h: "list_all is_str (take 100 (s_values (dropna s)))"
    unfolding dv using tx by (auto simp: list_all_iff dest: in_set_takeD)
  have nz: "s_len (dropna s) \<noteq> 0" using ne dv by (simp add: s_len_def)
  have "dict_get (detect_patterns P s column threshold) ''is_id'' =
          Some (JBool (case nunique s of Inl e \<Rightarrow> False | Inr u \<Rightarrow> u = s_len s))"
    using h nz by (simp add: detect_patterns_def string_patterns_def Let_def dict_get_def)
  also have "(case nunique s of Inl e \<Rightarrow> False | Inr u \<Rightarrow> u = s_len s) =
             (card (set ?vs) = length (s_values s))"
    unfolding nunique_text [OF tx] by (simp add: s_len_def)
  also have "\<dots> = (list_all (\<lambda>v. \<not> isnull v) (s_values s) \<and> distinct (s_values s))"
  proof
    assume c: "card (set ?vs) = length (s_values s)"
    have c1: "card (set ?vs) \<le> length ?vs" by (rule card_length)
    have c2: "length ?vs \<le> length (s_values s)" by (rule length_filter_le)
    have l: "length ?vs = length (s_values s)" using c c1 c2 by linarith
    have d: "card (set ?vs) = length ?vs" using c l by linarith
    from l have f: "?vs = s_values s"
      by (metis filter_True length_filter_less linorder_not_less order_refl)
    then have "list_all (\<lambda>v. \<not> isnull v) (s_values s)"
      by (metis (mono_tags, lifting) filter_id_conv list_all_iff)
    moreover from d f have "distinct (s_values s)" by (simp add: card_distinct)
    ultimately show "list_all (\<lambda>v. \<not> isnull v) (s_values s) \<and> distinct (s_values s)" by simp
  next
    assume a: "list_all (\<lambda>v. \<not> isnull v) (s_values s) \<and> distinct (s_values s)"
    then have "?vs = s_values s" by (simp add: list_all_iff)
    with a show "card (set ?vs) = length (s_values s)" by (simp add: distinct_card)
  qed
  finally show ?thesis .
qed

text \<open>
  Claim C6 asks for \<open>is_id\<close> to be true whenever the non-missing values are pairwise
  distinct, however many cells are missing. The source compares \<^verbatim>\<open>series.nunique()\<close> with
  \<^verbatim>\<open>len(series)\<close> on the column with its missing cells, so one missing cell makes
  \<open>is_id\<close> false; \<open>is_potential_id\<close> of the string profile, computed on the non-missing
  cells, is true for the same column.
\<close>

theorem is_id_false_with_missing_cell:
  "distinct (filter (\<lambda>v. \<not> isnull v) (s_values ids_with_gap))
   \<and> dict_get (detect_patterns P ids_with_gap column threshold) ''is_id'' = Some (JBool False)"
  by (simp add: detect_patterns_def ids_with_gap_def dropna_def s_len_def string_patterns_def
        nunique_def dict_get_def Let_def)

lemma is_potential_id_with_missing_cell:
  "ebind (profile_column example_pandas ids_with_gap ''c'' (4 / 5))
       (\<lambda>p. Inr (dict_get p ''is_potential_id'')) = Inr (Some (JBool True))"
  apply (simp add: profile_column_def ids_with_gap_def dropna_def s_len_def isnull_sum_def Let_def
      determine_dtype_def boolean_rule_def series_unique_def numeric_string_rule_def
      example_pandas_def parse_decimal_def notna_sum_def np_ratio_def ebind_def profile_string_def
      nunique_def example_value_counts_def dict_update_def dict_get_def boolean_like_keys_def)
  done

section \<open>Properties of the correlation analyzer\<close>

lemma keys_dict_set: "fst ` set (dict_set k v d) = insert k (fst ` set d)"
  by (induction d) auto

lemma keys_fold_dict_set:
  "fst ` set (fold (\<lambda>c acc. if p c then dict_set (f c) (g c) acc else acc) cs acc0) =
     fst ` set acc0 \<union> f ` {c \<in> set cs. p c}"
proof (induction cs arbitrary: acc0)
  case Nil
  then show ?case by simp
next
  case (Cons c cs)
  show ?case
  proof (cases "p c")
    case True
    have "{x \<in> set (c # cs). p x} = insert c {x \<in> set cs. p x}" using True by auto
    then show ?thesis using True Cons.IH [of "dict_set (f c) (g c) acc0"]
      by (simp add: keys_dict_set)
  next
    case False
    have "{x \<in> set (c # cs). p x} = {x \<in> set cs. p x}" using False by auto
    then show ?thesis using False Cons.IH [of acc0] by simp
  qed
qed

lemma dict_get_fold_general:
  assumes "distinct (map fst cs)" "c \<in> set cs"
  shows "dict_get (fold (\<lambda>c acc. dict_set (fst c) (g c) acc) cs acc0) (fst c) = Some (g c)"
  using assms
proof (induction cs rule: rev_induct)
  case Nil
  then show ?case by simp
next
  case (snoc x xs)
  show ?case
  proof (cases "fst x = fst c")
    case True
    with snoc.prems have "x = c"
      by (auto simp: rev_image_eqI)
    then show ?thesis by (simp add: dict_get_dict_set)
  next
    case False
    with snoc.prems have "c \<in> set xs" "distinct (map fst xs)" by auto
    with snoc.IH have "dict_get (fold (\<lambda>c acc. dict_set (fst c) (g c) acc) xs acc0) (fst c) = Some (g c)"
      by blast
    with False show ?thesis by (simp add: dict_get_dict_set)
  qed
qed

lemma correlation_row_keys:
  "set (dict_keys (correlation_row P cols col1)) = fst ` set cols - {fst col1}"
proof -
  have "fst ` set (correlation_row P cols col1) =
          fst ` set ([] :: (string \<times> fnum) list) \<union> fst ` {c \<in> set cols. fst col1 \<noteq> fst c}"
    unfolding correlation_row_def by (rule keys_fold_dict_set)
  then show ?thesis by (auto simp: dict_keys_def)
qed

lemma correlations_keys:
  "set (dict_keys (calculate_correlations P df)) \<subseteq> set (numeric_storage_names df)"
proof -
  have "fst ` set (fold (\<lambda>col1 correlations.
                   if True then dict_set (fst col1) (correlation_row P (numeric_columns df) col1) correlations
                   else correlations) (numeric_columns df) []) =
        fst ` set ([] :: correlations) \<union> fst ` {c \<in> set (numeric_columns df). True}"
    by (rule keys_fold_dict_set)
  then show ?thesis
    by (auto simp: calculate_correlations_def Let_def dict_keys_def numeric_storage_names_def
          numeric_columns_def)
qed

text \<open>
  Claim C8. On a table with distinct column names, the correlation analyzer returns the
  empty mapping when fewer than two columns have raw numeric storage; otherwise every
  column of numeric storage has an entry whose keys are exactly the other columns of numeric
  storage, so every ordered pair of distinct such columns is present and no column maps to
  itself; the keys are never more than the columns of numeric storage, and a column of
  another storage, whatever the type classifier says of it, is none of them.
\<close>

theorem calculate_correlations_entries:
  assumes wf: "wf_dataframe df"
  shows "(length (numeric_storage_names df) < 2 \<longrightarrow> calculate_correlations P df = [])
     \<and> (2 \<le> length (numeric_storage_names df) \<longrightarrow>
          (\<forall>a \<in> set (numeric_storage_names df).
              \<exists>row. dict_get (calculate_correlations P df) a = Some row
                  \<and> set (dict_keys row) = set (numeric_storage_names df) - {a}))
     \<and> set (dict_keys (calculate_correlations P df)) \<subseteq> set (numeric_storage_names df)
     \<and> (\<forall>c \<in> set (df_columns df).
           \<not> is_np_number (fst (snd c)) \<longrightarrow> fst c \<notin> set (numeric_storage_names df))"
proof -
  let ?cols = "numeric_columns df"
  have names: "numeric_storage_names df = map fst ?cols"
    by (simp add: numeric_storage_names_def numeric_columns_def)
  have d: "distinct (map fst (df_columns df))" using wf by (simp add: wf_dataframe_def)
  have dn: "distinct (map fst ?cols)"
    unfolding numeric_columns_def using d by (rule distinct_map_filter)
  have few: "length (numeric_storage_names df) < 2 \<longrightarrow> calculate_correlations P df = []"
    by (simp add: names calculate_correlations_def)
  have many: "\<exists>row. dict_get (calculate_correlations P df) a = Some row
                  \<and> set (dict_keys row) = set (numeric_storage_names df) - {a}"
    if two: "2 \<le> length (numeric_storage_names df)" and a: "a \<in> set (numeric_storage_names df)" for a
  proof -
    from a obtain col1 where c1: "col1 \<in> set ?cols" and fa: "fst col1 = a"
      unfolding names by auto
    have "calculate_correlations P df =
            fold (\<lambda>col1 correlations.
                   dict_set (fst col1) (correlation_row P ?cols col1) correlations) ?cols []"
      using two by (simp add: names calculate_correlations_def Let_def)
    then have "dict_get (calculate_correlations P df) (fst col1) =
                 Some (correlation_row P ?cols col1)"
      using dict_get_fold_general [OF dn c1, of "correlation_row P ?cols" "[]"] by simp
    moreover have "set (dict_keys (correlation_row P ?cols col1)) =
                     set (numeric_storage_names df) - {a}"
      unfolding correlation_row_keys names fa by simp
    ultimately show ?thesis using fa by blast
  qed
  have other: "fst c \<notin> set (numeric_storage_names df)"
    if c: "c \<in> set (df_columns df)" and nn: "\<not> is_np_number (fst (snd c))" for c
  proof
    assume "fst c \<in> set (numeric_storage_names df)"
    then obtain c' where c': "c' \<in> set (df_columns df)" "is_np_number (fst (snd c'))"
      "fst c' = fst c"
      by (auto simp: numeric_storage_names_def)
    with d c have "c' = c" by (meson eq_key_imp_eq_value prod_eqI distinct_map inj_onD)
    with c' nn show False by simp
  qed
  from few many other correlations_keys show ?thesis by blast
qed

theorem calculate_correlations_entries_witness:
  "wf_dataframe df_corr
   \<and> determine_dtype example_pandas
        (column_series df_corr (D_object, [PyStr ''1'', PyStr ''2'', PyStr ''3''])) = ''numeric''
   \<and> (\<exists>row. dict_get (calculate_correlations example_pandas df_corr) ''a'' = Some row
             \<and> set (dict_keys row) = {''b''})
   \<and> (\<exists>row. dict_get (calculate_correlations example_pandas df_corr) ''b'' = Some row
             \<and> set (dict_keys row) = {''a''})
   \<and> ''s'' \<notin> set (dict_keys (calculate_correlations example_pandas df_corr))"
proof -
  have h: "wf_dataframe df_corr" by (simp add: wf_dataframe_def df_corr_def)
  have n: "numeric_storage_names df_corr = [''a'', ''b'']"
    by (simp add: numeric_storage_names_def df_corr_def)
  have t: "determine_dtype example_pandas
        (column_series df_corr (D_object, [PyStr ''1'', PyStr ''2'', PyStr ''3''])) = ''numeric''"
    by (simp add: determine_dtype_def column_series_def s_len_def boolean_rule_def
          series_unique_def numeric_string_rule_def example_pandas_def parse_decimal_def
          notna_sum_def np_ratio_def Let_def)
  have ab: "{''a'', ''b''} - {''a''} = {''b''}" "{''a'', ''b''} - {''b''} = {''a''}"
    by auto
  show ?thesis
    using h t calculate_correlations_entries [OF h, of example_pandas] ab
    unfolding n by auto
qed

section \<open>Properties of the orchestrator\<close>

lemma sparse_text_column_profile:
  "profile_column example_pandas
     (column_series df_sparse_text (D_object,
        [PyNone, PyNone, PyNone, PyNone, PyNone, PyNone, PyStr ''a'', PyNone])) ''c'' (4 / 5)
   = Inr sparse_text_profile"
  by (simp add: profile_column_def column_series_def df_sparse_text_def dropna_def s_len_def
        isnull_sum_def Let_def determine_dtype_def boolean_rule_def series_unique_def
        boolean_like_keys_def numeric_string_rule_def example_pandas_def parse_decimal_def
        notna_sum_def np_ratio_def ebind_def profile_string_def nunique_def
        example_value_counts_def dict_update_def somes_def example_reduce_def
        sparse_text_profile_def)

lemma sparse_text_missing:
  "analyze_missing_patterns df_sparse_text =
     [(''c'', [(''pattern'', JStr ''random''), (''count'', JInt 7),
               (''percentage'', JNum (Fin (175 / 2)))])]"
  by (simp add: analyze_missing_patterns_def df_sparse_text_def missing_record_def
        isnull_mask_def column_series_def df_len_def detect_missing_pattern_def null_indices_def
        range_index_def index_diffs_def np_ratio_def Let_def upt_rec)

lemma sparse_text_score:
  "calculate_quality_score [(''c'', sparse_text_profile)] correlations
     [(''c'', [(''pattern'', JStr ''random''), (''count'', JInt 7),
               (''percentage'', JNum (Fin (175 / 2)))])] = Inr (Fin (- (75 / 8)))"
  by (simp add: calculate_quality_score_def completeness_score_def outlier_score_def
        pattern_score_def ebind_def dict_get_def subscript_def sparse_text_profile_def
        fsum_def Let_def)

text \<open>
  Claim C1 asks for a quality score in the closed interval from 0 to 100 on every table
  and configuration that pass validation. The contribution of a \<open>random\<close> missing pattern,
  \<^verbatim>\<open>100 - percentage * 1.5\<close>, is not clamped as the outlier contribution is, and is
  negative above two thirds of missing cells. On the table of one text column with seven
  of eight cells missing (rows 0 to 5 and 7), the contributions are \<open>12.5\<close> and \<open>-31.25\<close>,
  and the score returned by \<^verbatim>\<open>execute\<close> is \<open>-9.375\<close>.
\<close>

theorem negative_quality_score:
  "execute example_pandas None now h (Some (DataFrame df_sparse_text)) default_config =
     (\<lparr>res_success = True,
       res_data = Some
         \<lparr>r_profile = [(''c'', sparse_text_profile)],
          r_patterns = [(''c'', detect_patterns example_pandas
              (column_series df_sparse_text (D_object,
                 [PyNone, PyNone, PyNone, PyNone, PyNone, PyNone, PyStr ''a'', PyNone]))
              ''c'' (4 / 5))],
          r_correlations = [],
          r_missing_patterns =
            [(''c'', [(''pattern'', JStr ''random''), (''count'', JInt 7),
                      (''percentage'', JNum (Fin (175 / 2)))])],
          r_quality_score = Fin (- (75 / 8)),
          r_metadata = \<lparr>md_sampled = False, md_sample_size = 8, md_original_size = 8,
                         md_profiled_at = now\<rparr>\<rparr>,
       res_errors = []\<rparr>, h)"
proof -
  have v: "validate_input (Some (DataFrame df_sparse_text)) = []"
    by (simp add: validate_input_def df_empty_def df_sparse_text_def)
  have c: "validate_config default_config = []"
    by (simp add: validate_config_def default_config_def)
  have cols: "df_columns df_sparse_text = [(''c'', D_object,
        [PyNone, PyNone, PyNone, PyNone, PyNone, PyNone, PyStr ''a'', PyNone])]"
    by (simp add: df_sparse_text_def)
  have len: "df_len df_sparse_text = 8" by (simp add: df_len_def df_sparse_text_def)
  have corr: "calculate_correlations example_pandas df_sparse_text = []"
    by (simp add: calculate_correlations_def numeric_columns_def cols)
  show ?thesis
    unfolding execute_def Let_def v c
    by (simp add: run_profiling_def default_config_def load_learned_patterns_def len cols
          sparse_text_column_profile sparse_text_missing sparse_text_score corr Let_def)
qed

lemma validate_input_rejected: "validate_input data \<noteq> [] \<longleftrightarrow> input_rejected data"
  by (simp add: validate_input_def input_rejected_def df_empty_def
        split: option.splits data_value.splits)

lemma validate_config_rejected: "validate_config cfg \<noteq> [] \<longleftrightarrow> config_rejected cfg"
  by (auto simp: validate_config_def config_rejected_def Let_def split: option.splits)

lemma execute_rejected:
  assumes "input_rejected data \<or> config_rejected cfg"
  shows "\<exists>errs. errs \<noteq> [] \<and> (\<forall>P L now. execute P L now h data cfg = (failure errs, h))"
proof (cases "input_rejected data")
  case True
  then have "validate_input data \<noteq> []" by (simp add: validate_input_rejected)
  then have "\<forall>P L now. execute P L now h data cfg = (failure (validate_input data), h)"
    by (simp add: execute_def Let_def)
  with \<open>validate_input data \<noteq> []\<close> show ?thesis by blast
next
  case False
  then have v: "validate_input data = []" using validate_input_rejected by blast
  from False assms have "validate_config cfg \<noteq> []" by (simp add: validate_config_rejected)
  then have "\<forall>P L now. execute P L now h data cfg = (failure (validate_config cfg), h)"
    using v by (simp add: execute_def Let_def)
  with \<open>validate_config cfg \<noteq> []\<close> show ?thesis by blast
qed

lemma execute_accepted:
  assumes "data = Some (DataFrame df)" "\<not> input_rejected data" "\<not> config_rejected cfg"
  shows "execute P L now h data cfg =
     (case run_profiling P L now h df cfg of
        (Inl e, h1) \<Rightarrow> (failure [exn_str e], h1)
      | (Inr result, h1) \<Rightarrow>
          (\<lparr>res_success = True, res_data = Some result, res_errors = []\<rparr>, h1))"
proof -
  have "validate_input data = []" using assms(2) validate_input_rejected by blast
  moreover have "validate_config cfg = []" using assms(3) validate_config_rejected by blast
  ultimately show ?thesis using assms(1) by (simp add: execute_def Let_def)
qed

lemma execute_result_shape:
  "(res_success (fst (execute P L now h data cfg))
      \<and> res_data (fst (execute P L now h data cfg)) \<noteq> None
      \<and> res_errors (fst (execute P L now h data cfg)) = [])
   \<or> (\<not> res_success (fst (execute P L now h data cfg))
      \<and> res_data (fst (execute P L now h data cfg)) = None
      \<and> res_errors (fst (execute P L now h data cfg)) \<noteq> [])"
proof (cases "input_rejected data \<or> config_rejected cfg")
  case True
  from execute_rejected [OF True, of h] obtain errs
    where ne: "errs \<noteq> []"
      and "\<forall>P L now. execute P L now h data cfg = (failure errs, h)" by (elim exE conjE)
  then have "execute P L now h data cfg = (failure errs, h)" by simp
  then show ?thesis using ne by (simp add: failure_def)
next
  case False
  then obtain df where d: "data = Some (DataFrame df)"
    by (auto simp: input_rejected_def split: option.splits data_value.splits)
  obtain r h1 where r: "run_profiling P L now h df cfg = (r, h1)"
    by (cases "run_profiling P L now h df cfg")
  have "execute P L now h data cfg =
     (case (r, h1) of
        (Inl e, h1) \<Rightarrow> (failure [exn_str e], h1)
      | (Inr result, h1) \<Rightarrow>
          (\<lparr>res_success = True, res_data = Some result, res_errors = []\<rparr>, h1))"
    using execute_accepted [OF d, of cfg P L now h] False r by simp
  then show ?thesis by (cases r) (simp_all add: failure_def)
qed

text \<open>
  Claim C2. When the table is absent, not a data frame or empty, or the configuration has
  a negative \<open>sample_size\<close> or a \<open>pattern_threshold\<close> outside the interval from 0 to 1,
  \<^verbatim>\<open>execute\<close> returns \<open>success\<close> false, no data and a non-empty error list, the same
  whatever the library, the learning history and the clock are, and leaves the learning
  history as it was: nothing of the profiling has run. When the input is accepted and the
  profiling raises, the result is \<open>success\<close> false, no data and the message of the
  exception as the only error. Every result is either a success with data and no error, or
  \<open>success\<close> false with no data and at least one error: no partial result is returned.
\<close>

theorem execute_failures:
  "(input_rejected data \<or> config_rejected cfg \<longrightarrow>
      (\<exists>errs. errs \<noteq> [] \<and>
         (\<forall>P L now. execute P L now h data cfg =
            (\<lparr>res_success = False, res_data = None, res_errors = errs\<rparr>, h))))
   \<and> (\<forall>df e h1. data = Some (DataFrame df) \<and> \<not> input_rejected data \<and> \<not> config_rejected cfg
          \<and> run_profiling P L now h df cfg = (Inl e, h1)
        \<longrightarrow> execute P L now h data cfg =
              (\<lparr>res_success = False, res_data = None, res_errors = [exn_str e]\<rparr>, h1))
   \<and> ((res_success (fst (execute P L now h data cfg))
          \<and> res_data (fst (execute P L now h data cfg)) \<noteq> None
          \<and> res_errors (fst (execute P L now h data cfg)) = [])
        \<or> (\<not> res_success (fst (execute P L now h data cfg))
          \<and> res_data (fst (execute P L now h data cfg)) = None
          \<and> res_errors (fst (execute P L now h data cfg)) \<noteq> []))"
proof (intro conjI allI impI)
  assume "input_rejected data \<or> config_rejected cfg"
  then show "\<exists>errs. errs \<noteq> [] \<and>
         (\<forall>P L now. execute P L now h data cfg =
            (\<lparr>res_success = False, res_data = None, res_errors = errs\<rparr>, h))"
    using execute_rejected [of data cfg h] unfolding failure_def by simp
next
  fix df e h1
  assume a: "data = Some (DataFrame df) \<and> \<not> input_rejected data \<and> \<not> config_rejected cfg
          \<and> run_profiling P L now h df cfg = (Inl e, h1)"
  then have d: "data = Some (DataFrame df)" and i: "\<not> input_rejected data"
    and c: "\<not> config_rejected cfg" and r: "run_profiling P L now h df cfg = (Inl e, h1)"
    by blast+
  show "execute P L now h data cfg =
          (\<lparr>res_success = False, res_data = None, res_errors = [exn_str e]\<rparr>, h1)"
    using execute_accepted [OF d i c, of P L now h] r by (simp add: failure_def)
next
  show "(res_success (fst (execute P L now h data cfg))
          \<and> res_data (fst (execute P L now h data cfg)) \<noteq> None
          \<and> res_errors (fst (execute P L now h data cfg)) = [])
        \<or> (\<not> res_success (fst (execute P L now h data cfg))
          \<and> res_data (fst (execute P L now h data cfg)) = None
          \<and> res_errors (fst (execute P L now h data cfg)) \<noteq> [])"
    by (rule execute_result_shape)
qed

lemma missing_method_raises:
  "run_profiling example_pandas (Some manager_without_methods) now () df_sparse_text
     default_config = (Inl (no_attribute ''suggest_column_type''), ())"
proof -
  have cols: "df_columns df_sparse_text = [(''c'', D_object,
        [PyNone, PyNone, PyNone, PyNone, PyNone, PyNone, PyStr ''a'', PyNone])]"
    by (simp add: df_sparse_text_def)
  have len: "df_len df_sparse_text = 8" by (simp add: df_len_def df_sparse_text_def)
  have ld: "load_learned_patterns (Some manager_without_methods) True () = (Inr (), ())"
    by (simp add: load_learned_patterns_def manager_without_methods_def no_attribute_def)
  have al: "apply_learning manager_without_methods column col_profile col_patterns () =
              (Inl (no_attribute ''suggest_column_type''), ())" for column col_profile col_patterns
    by (simp add: apply_learning_def manager_without_methods_def)
  show ?thesis
    by (simp add: run_profiling_def default_config_def len cols ld al Let_def
          sparse_text_column_profile)
qed

theorem execute_failures_witness:
  "input_rejected None
   \<and> (\<exists>errs. errs \<noteq> [] \<and>
         (\<forall>P L now. execute P L now () None default_config =
            (\<lparr>res_success = False, res_data = None, res_errors = errs\<rparr>, ())))
   \<and> config_rejected negative_sample_config
   \<and> (\<exists>errs. errs \<noteq> [] \<and>
         (\<forall>P L now. execute P L now () (Some (DataFrame df_sparse_text)) negative_sample_config
                      = (\<lparr>res_success = False, res_data = None, res_errors = errs\<rparr>, ())))
   \<and> \<not> input_rejected (Some (DataFrame df_sparse_text)) \<and> \<not> config_rejected default_config
   \<and> run_profiling example_pandas (Some manager_without_methods) ''now'' () df_sparse_text
         default_config = (Inl (no_attribute ''suggest_column_type''), ())
   \<and> execute example_pandas (Some manager_without_methods) ''now'' ()
         (Some (DataFrame df_sparse_text)) default_config
       = (\<lparr>res_success = False, res_data = None,
            res_errors = [quoted ''LearningHistoryManager'' @ '' object has no attribute ''
                            @ quoted ''suggest_column_type'']\<rparr>, ())"
proof -
  have h1: "input_rejected None" by (simp add: input_rejected_def)
  have h2: "config_rejected negative_sample_config"
    by (simp add: config_rejected_def negative_sample_config_def)
  have h3: "\<not> input_rejected (Some (DataFrame df_sparse_text))"
    by (simp add: input_rejected_def df_sparse_text_def)
  have h4: "\<not> config_rejected default_config"
    by (simp add: config_rejected_def default_config_def)
  have h5: "run_profiling example_pandas (Some manager_without_methods) ''now'' () df_sparse_text
         default_config = (Inl (no_attribute ''suggest_column_type''), ())"
    by (rule missing_method_raises)
  have m: "exn_str (no_attribute ''suggest_column_type'') =
             quoted ''LearningHistoryManager'' @ '' object has no attribute ''
               @ quoted ''suggest_column_type''"
    by (simp add: no_attribute_def)
  have a: "\<exists>errs. errs \<noteq> [] \<and>
         (\<forall>P L now. execute P L now () None default_config =
            (\<lparr>res_success = False, res_data = None, res_errors = errs\<rparr>, ()))"
    using h1 execute_failures [of None default_config "()"] by simp
  have b: "\<exists>errs. errs \<noteq> [] \<and>
         (\<forall>P L now. execute P L now () (Some (DataFrame df_sparse_text)) negative_sample_config
                      = (\<lparr>res_success = False, res_data = None, res_errors = errs\<rparr>, ()))"
    using h2 execute_failures [of "Some (DataFrame df_sparse_text)" negative_sample_config "()"]
    by simp
  have c: "execute example_pandas (Some manager_without_methods) ''now'' ()
         (Some (DataFrame df_sparse_text)) default_config
       = (\<lparr>res_success = False, res_data = None,
            res_errors = [exn_str (no_attribute ''suggest_column_type'')]\<rparr>, ())"
    using h3 h4 h5
      execute_failures [of "Some (DataFrame df_sparse_text)" default_config "()"
        example_pandas "Some manager_without_methods" "''now''"]
    by blast
  from h1 a h2 b h3 h4 h5 c show ?thesis unfolding m by blast
qed

lemma profile_columns_learning_off:
  "profile_columns P L False t df cs profile patterns h =
     (fst (profile_columns P (None :: unit learning_history option) False t df cs
             profile patterns ()), h)"
proof (induction cs arbitrary: profile patterns)
  case Nil
  show ?case by simp
next
  case (Cons c cs)
  have off: "(case L of
               None \<Rightarrow> (Inr col_profile, h)
             | Some l \<Rightarrow> if False then apply_learning l column col_profile col_patterns h
                         else (Inr col_profile, h)) = (Inr col_profile, h)"
    for column col_profile col_patterns
    by (cases L) simp_all
  show ?case
  proof (cases "profile_column P (column_series df (snd c)) (fst c) t")
    case (Inl e)
    then show ?thesis by (simp add: Let_def)
  next
    case (Inr col_profile)
    then show ?thesis
      using Cons.IH [of "dict_set (fst c) col_profile profile"
          "dict_set (fst c) (detect_patterns P (column_series df (snd c)) (fst c) t) patterns"]
      by (simp add: Let_def off)
  qed
qed

lemma run_profiling_learning_off:
  assumes "cfg_enable_learning cfg = Some False"
  shows "run_profiling P L now h df cfg =
     (case learning_free_run P df cfg of
        Inl e \<Rightarrow> Inl e
      | Inr d \<Rightarrow> Inr (stamp now d), h)"
proof -
  have ld: "load_learned_patterns L False h = (Inr (), h)" for L :: "'b learning_history option"
    and h :: 'b
    by (simp add: load_learned_patterns_def split: option.splits)
  show ?thesis
    unfolding learning_free_run_def run_profiling_def Let_def assms option.case ld
    by (subst (1 2) profile_columns_learning_off)
       (simp add: stamp_def split: sum.splits prod.splits)
qed


lemma execute_learning_off_form:
  assumes "cfg_enable_learning cfg = Some False"
  shows "execute P L now h data cfg =
     (let errors = validate_input data in
      if errors \<noteq> [] then (failure errors, h)
      else
        let config_errors = validate_config cfg in
        if config_errors \<noteq> [] then (failure config_errors, h)
        else
          case data of
            Some (DataFrame df) \<Rightarrow>
              (case learning_free_run P df cfg of
                 Inl e \<Rightarrow> (failure [exn_str e], h)
               | Inr d \<Rightarrow>
                   (\<lparr>res_success = True, res_data = Some (stamp now d), res_errors = []\<rparr>, h))
          | Some NotDataFrame \<Rightarrow> (failure [''object has no len()''], h)
          | None \<Rightarrow> (failure [quoted ''dataframe''], h))"
  unfolding execute_def run_profiling_learning_off [OF assms]
  by (simp add: Let_def split: option.splits data_value.splits sum.splits)

lemma execute_learning_off:
  assumes "cfg_enable_learning cfg = Some False"
  shows "without_profiled_at (fst (execute P L1 now1 h1 data cfg)) =
         without_profiled_at (fst (execute P L2 now2 h2 data cfg))"
    and "snd (execute P L1 now1 h1 data cfg) = h1"
proof -
  show "without_profiled_at (fst (execute P L1 now1 h1 data cfg)) =
         without_profiled_at (fst (execute P L2 now2 h2 data cfg))"
    unfolding execute_learning_off_form [OF assms]
    by (simp add: Let_def without_profiled_at_def failure_def stamp_def
          split: option.splits data_value.splits sum.splits)
  show "snd (execute P L1 now1 h1 data cfg) = h1"
    unfolding execute_learning_off_form [OF assms]
    by (simp add: Let_def split: option.splits data_value.splits sum.splits)
qed


lemma sampler_fields:
  "to_numeric (P\<lparr>df_sample := f\<rparr>) = to_numeric P"
  "to_datetime (P\<lparr>df_sample := f\<rparr>) = to_datetime P"
  "str_match (P\<lparr>df_sample := f\<rparr>) = str_match P"
  "reduce (P\<lparr>df_sample := f\<rparr>) = reduce P"
  "value_counts_head (P\<lparr>df_sample := f\<rparr>) = value_counts_head P"
  "value_counts_get (P\<lparr>df_sample := f\<rparr>) = value_counts_get P"
  "str_len (P\<lparr>df_sample := f\<rparr>) = str_len P"
  "isoformat (P\<lparr>df_sample := f\<rparr>) = isoformat P"
  "timedelta_str (P\<lparr>df_sample := f\<rparr>) = timedelta_str P"
  "pearson (P\<lparr>df_sample := f\<rparr>) = pearson P"
  by simp_all

lemma sampler_determine_dtype:
  "determine_dtype (P\<lparr>df_sample := f\<rparr>) s = determine_dtype P s"
  unfolding determine_dtype_def numeric_string_rule_def sampler_fields ..

lemma sampler_profile_column:
  "profile_column (P\<lparr>df_sample := f\<rparr>) s column t = profile_column P s column t"
  unfolding profile_column_def sampler_determine_dtype profile_numeric_def profile_string_def
    profile_datetime_def detect_date_frequency_def profile_boolean_def sampler_fields ..

lemma sampler_detect_patterns:
  "detect_patterns (P\<lparr>df_sample := f\<rparr>) s column t = detect_patterns P s column t"
  unfolding detect_patterns_def string_patterns_def sampler_determine_dtype match_count_def
    is_continuous_def sampler_fields ..

lemma sampler_profile_columns:
  "profile_columns (P\<lparr>df_sample := f\<rparr>) L learning t df cs profile patterns h =
   profile_columns P L learning t df cs profile patterns h"
proof (induction cs arbitrary: profile patterns h)
  case Nil
  show ?case by simp
next
  case (Cons c cs)
  show ?case
    unfolding profile_columns.simps sampler_profile_column sampler_detect_patterns Cons.IH ..
qed

lemma sampler_calculate_correlations:
  "calculate_correlations (P\<lparr>df_sample := f\<rparr>) df = calculate_correlations P df"
  unfolding calculate_correlations_def correlation_row_def sampler_fields ..

lemma sampler_run_profiling:
  assumes "\<forall>df n. f df n 42 = df_sample P df n 42"
  shows "run_profiling (P\<lparr>df_sample := f\<rparr>) L now h df cfg = run_profiling P L now h df cfg"
proof -
  have s: "sample_dataframe (P\<lparr>df_sample := f\<rparr>) d n = sample_dataframe P d n" for d n
    using assms by (simp add: sample_dataframe_def)
  show ?thesis
    unfolding run_profiling_def s sampler_profile_columns sampler_calculate_correlations ..
qed

lemma sampler_execute:
  assumes "\<forall>df n. f df n 42 = df_sample P df n 42"
  shows "execute (P\<lparr>df_sample := f\<rparr>) L now h data cfg = execute P L now h data cfg"
proof -
  have r: "run_profiling (P\<lparr>df_sample := f\<rparr>) L now h d cfg = run_profiling P L now h d cfg"
    for d
    using assms by (rule sampler_run_profiling)
  show ?thesis unfolding execute_def r ..
qed

lemma parser_fields:
  "to_numeric (P\<lparr>to_datetime := td\<rparr>) = to_numeric P"
  "to_datetime (P\<lparr>to_datetime := td\<rparr>) = td"
  "str_match (P\<lparr>to_datetime := td\<rparr>) = str_match P"
  "df_sample (P\<lparr>to_datetime := td\<rparr>) = df_sample P"
  "reduce (P\<lparr>to_datetime := td\<rparr>) = reduce P"
  "value_counts_head (P\<lparr>to_datetime := td\<rparr>) = value_counts_head P"
  "value_counts_get (P\<lparr>to_datetime := td\<rparr>) = value_counts_get P"
  "str_len (P\<lparr>to_datetime := td\<rparr>) = str_len P"
  "isoformat (P\<lparr>to_datetime := td\<rparr>) = isoformat P"
  "timedelta_str (P\<lparr>to_datetime := td\<rparr>) = timedelta_str P"
  "pearson (P\<lparr>to_datetime := td\<rparr>) = pearson P"
  by simp_all

lemma parser_determine_dtype:
  assumes "td1 s = td2 s"
  shows "determine_dtype (P\<lparr>to_datetime := td1\<rparr>) s =
         determine_dtype (P\<lparr>to_datetime := td2\<rparr>) s"
  unfolding determine_dtype_def numeric_string_rule_def parser_fields assms ..

lemma parser_profile_column:
  assumes "td1 (dropna s) = td2 (dropna s)"
  shows "profile_column (P\<lparr>to_datetime := td1\<rparr>) s column t =
         profile_column (P\<lparr>to_datetime := td2\<rparr>) s column t"
proof -
  have dd: "determine_dtype (P\<lparr>to_datetime := td1\<rparr>) (dropna s) =
            determine_dtype (P\<lparr>to_datetime := td2\<rparr>) (dropna s)"
    using assms by (rule parser_determine_dtype)
  show ?thesis
    unfolding profile_column_def Let_def dd
      profile_numeric_def profile_string_def profile_datetime_def detect_date_frequency_def
      profile_boolean_def parser_fields assms ..
qed

lemma parser_detect_patterns:
  assumes "td1 s = td2 s"
  shows "detect_patterns (P\<lparr>to_datetime := td1\<rparr>) s column t =
         detect_patterns (P\<lparr>to_datetime := td2\<rparr>) s column t"
proof -
  have dd: "determine_dtype (P\<lparr>to_datetime := td1\<rparr>) s =
            determine_dtype (P\<lparr>to_datetime := td2\<rparr>) s"
    using assms by (rule parser_determine_dtype)
  show ?thesis
    unfolding detect_patterns_def string_patterns_def Let_def dd match_count_def
      is_continuous_def parser_fields ..
qed

lemma parser_profile_columns:
  assumes "\<forall>c \<in> set cs. td1 (column_series df (snd c)) = td2 (column_series df (snd c))
             \<and> td1 (dropna (column_series df (snd c))) = td2 (dropna (column_series df (snd c)))"
  shows "profile_columns (P\<lparr>to_datetime := td1\<rparr>) L learning t df cs profile patterns h =
         profile_columns (P\<lparr>to_datetime := td2\<rparr>) L learning t df cs profile patterns h"
  using assms
proof (induction cs arbitrary: profile patterns h)
  case Nil
  show ?case by simp
next
  case (Cons c cs)
  have a: "td1 (column_series df (snd c)) = td2 (column_series df (snd c))"
    and b: "td1 (dropna (column_series df (snd c))) = td2 (dropna (column_series df (snd c)))"
    using Cons.prems by simp_all
  have pc: "profile_column (P\<lparr>to_datetime := td1\<rparr>) (column_series df (snd c)) (fst c) t =
            profile_column (P\<lparr>to_datetime := td2\<rparr>) (column_series df (snd c)) (fst c) t"
    using b by (rule parser_profile_column)
  have dp: "detect_patterns (P\<lparr>to_datetime := td1\<rparr>) (column_series df (snd c)) (fst c) t =
            detect_patterns (P\<lparr>to_datetime := td2\<rparr>) (column_series df (snd c)) (fst c) t"
    using a by (rule parser_detect_patterns)
  have ih: "profile_columns (P\<lparr>to_datetime := td1\<rparr>) L learning t df cs pr pa g =
            profile_columns (P\<lparr>to_datetime := td2\<rparr>) L learning t df cs pr pa g" for pr pa g
    using Cons.IH Cons.prems by simp
  show ?case
    unfolding profile_columns.simps Let_def pc dp ih ..
qed


lemma profiled_table_parser:
  "profiled_table (P\<lparr>to_datetime := td\<rparr>) df cfg = profiled_table P df cfg"
  by (simp add: profiled_table_def)

lemma run_profiling_unfold:
  "run_profiling P L now h df0 cfg =
     (case load_learned_patterns L
             (case cfg_enable_learning cfg of None \<Rightarrow> True | Some b \<Rightarrow> b) h of
        (Inl e, h1) \<Rightarrow> (Inl e, h1)
      | (Inr u, h1) \<Rightarrow>
          (case profile_columns P L (case cfg_enable_learning cfg of None \<Rightarrow> True | Some b \<Rightarrow> b)
                  (threshold_of cfg) (profiled_table P df0 cfg)
                  (df_columns (profiled_table P df0 cfg)) [] [] h1 of
             (Inl e, h2) \<Rightarrow> (Inl e, h2)
           | (Inr (profile, patterns), h2) \<Rightarrow>
               (case calculate_quality_score profile
                       (calculate_correlations P (profiled_table P df0 cfg))
                       (analyze_missing_patterns (profiled_table P df0 cfg)) of
                  Inl e \<Rightarrow> (Inl e, h2)
                | Inr quality_score \<Rightarrow>
                    (Inr \<lparr>r_profile = profile, r_patterns = patterns,
                          r_correlations = calculate_correlations P (profiled_table P df0 cfg),
                          r_missing_patterns = analyze_missing_patterns (profiled_table P df0 cfg),
                          r_quality_score = quality_score,
                          r_metadata = \<lparr>md_sampled = (int (df_len df0) > sample_size_of cfg),
                                         md_sample_size = df_len (profiled_table P df0 cfg),
                                         md_original_size = df_len df0,
                                         md_profiled_at = now\<rparr>\<rparr>, h2))))"
proof -
  have t: "(if int (df_len df0) > (case cfg_sample_size cfg of None \<Rightarrow> 100000 | Some n \<Rightarrow> n)
            then sample_dataframe P df0 (case cfg_sample_size cfg of None \<Rightarrow> 100000 | Some n \<Rightarrow> n)
            else df0) = profiled_table P df0 cfg"
    by (simp add: profiled_table_def sample_dataframe_def sample_size_of_def)
  show ?thesis
    unfolding run_profiling_def Let_def t threshold_of_def sample_size_of_def ..
qed

lemma parser_run_profiling:
  assumes "\<forall>s \<in> set (consulted_series P df0 cfg). td1 s = td2 s"
  shows "run_profiling (P\<lparr>to_datetime := td1\<rparr>) L now h df0 cfg =
         run_profiling (P\<lparr>to_datetime := td2\<rparr>) L now h df0 cfg"
proof -
  let ?T = "profiled_table P df0 cfg"
  have cols: "\<forall>c \<in> set (df_columns ?T).
                td1 (column_series ?T (snd c)) = td2 (column_series ?T (snd c))
                \<and> td1 (dropna (column_series ?T (snd c))) = td2 (dropna (column_series ?T (snd c)))"
    using assms by (auto simp: consulted_series_def)
  have pc: "profile_columns (P\<lparr>to_datetime := td1\<rparr>) L b t ?T (df_columns ?T) [] [] g =
            profile_columns (P\<lparr>to_datetime := td2\<rparr>) L b t ?T (df_columns ?T) [] [] g"
    for b t g
    using cols by (rule parser_profile_columns)
  have cc: "calculate_correlations (P\<lparr>to_datetime := td\<rparr>) T = calculate_correlations P T"
    for td T
    unfolding calculate_correlations_def correlation_row_def parser_fields ..
  show ?thesis
    unfolding run_profiling_unfold profiled_table_parser pc cc ..
qed

lemma parser_execute:
  assumes differ: "P2 = P1\<lparr>to_datetime := to_datetime P2\<rparr>"
    and same: "\<forall>df. data = Some (DataFrame df) \<longrightarrow>
                 (\<forall>s \<in> set (consulted_series P1 df cfg). to_datetime P1 s = to_datetime P2 s)"
  shows "execute P2 L now h data cfg = execute P1 L now h data cfg"
proof -
  have p1: "P1\<lparr>to_datetime := to_datetime P1\<rparr> = P1" by simp
  have r: "run_profiling P2 L now h df cfg = run_profiling P1 L now h df cfg"
    if "data = Some (DataFrame df)" for df
  proof -
    from that same
    have "\<forall>s \<in> set (consulted_series P1 df cfg). to_datetime P1 s = to_datetime P2 s" by blast
    then have "run_profiling (P1\<lparr>to_datetime := to_datetime P1\<rparr>) L now h df cfg =
               run_profiling (P1\<lparr>to_datetime := to_datetime P2\<rparr>) L now h df cfg"
      by (rule parser_run_profiling)
    then show ?thesis using differ p1 by simp
  qed
  show ?thesis
  proof (cases data)
    case None
    then show ?thesis by (simp add: execute_def Let_def)
  next
    case (Some v)
    show ?thesis
    proof (cases v)
      case (DataFrame df)
      with Some have d: "data = Some (DataFrame df)" by simp
      show ?thesis using r [OF d] by (simp add: execute_def Let_def d)
    next
      case NotDataFrame
      with Some show ?thesis by (simp add: execute_def Let_def)
    qed
  qed
qed

lemma learning_free_run_data:
  assumes off: "cfg_enable_learning cfg = Some False"
    and run: "learning_free_run P df cfg = Inr d"
  shows "profile_of_table P (profiled_table P df cfg) (threshold_of cfg) =
           Inr (r_profile d, r_patterns d)
     \<and> r_correlations d = calculate_correlations P (profiled_table P df cfg)
     \<and> r_missing_patterns d = analyze_missing_patterns (profiled_table P df cfg)
     \<and> md_sampled (r_metadata d) = (int (df_len df) > sample_size_of cfg)
     \<and> md_sample_size (r_metadata d) = df_len (profiled_table P df cfg)
     \<and> md_original_size (r_metadata d) = df_len df"
proof -
  have ld: "load_learned_patterns (None :: unit learning_history option) False () = (Inr (), ())"
    by (simp add: load_learned_patterns_def)
  show ?thesis
    using run
    unfolding learning_free_run_def run_profiling_unfold off option.case ld profile_of_table_def
    by (auto split: prod.splits sum.splits)
qed

lemma execute_success_data:
  assumes off: "cfg_enable_learning cfg = Some False"
    and d: "data = Some (DataFrame df)"
    and r: "res_data (fst (execute P L now h data cfg)) = Some x"
  shows "\<exists>d0. learning_free_run P df cfg = Inr d0 \<and> x = stamp now d0"
  using r unfolding execute_learning_off_form [OF off] d
  by (auto simp: Let_def failure_def split: if_splits sum.splits)

lemma sampled_run:
  "execute example_pandas None now h (Some (DataFrame df_sparse_text)) sampling_config =
     (\<lparr>res_success = True,
       res_data = Some
         \<lparr>r_profile = [(''c'', [(''count'', JInt 3), (''null_count'', JInt 3),
                                (''null_percentage'', JNum (Fin 100)),
                                (''dtype'', JStr ''all_null'')])],
          r_patterns = [(''c'', [])],
          r_correlations = [],
          r_missing_patterns =
            [(''c'', [(''pattern'', JStr ''all_missing''), (''count'', JInt 3),
                      (''percentage'', JInt 100)])],
          r_quality_score = Fin 50,
          r_metadata = \<lparr>md_sampled = True, md_sample_size = 3, md_original_size = 8,
                         md_profiled_at = now\<rparr>\<rparr>,
       res_errors = []\<rparr>, h)"
proof -
  let ?s = "\<lparr>df_index = [0, 1, 2], df_columns = [(''c'', D_object, [PyNone, PyNone, PyNone])]\<rparr>"
  have v: "validate_input (Some (DataFrame df_sparse_text)) = []"
    by (simp add: validate_input_def df_empty_def df_sparse_text_def)
  have c: "validate_config sampling_config = []"
    by (simp add: validate_config_def sampling_config_def)
  have len: "df_len df_sparse_text = 8" by (simp add: df_len_def df_sparse_text_def)
  have sm: "sample_dataframe example_pandas df_sparse_text 3 = ?s"
    unfolding sample_dataframe_def len
    by (simp add: example_pandas_def example_sample_def df_sparse_text_def)
  have pc: "profile_column example_pandas (column_series ?s (D_object, [PyNone, PyNone, PyNone]))
              ''c'' (4 / 5) =
            Inr [(''count'', JInt 3), (''null_count'', JInt 3),
                 (''null_percentage'', JNum (Fin 100)), (''dtype'', JStr ''all_null'')]"
    by (simp add: profile_column_def column_series_def dropna_def s_len_def isnull_sum_def
          np_ratio_def Let_def)
  have dp: "detect_patterns example_pandas (column_series ?s (D_object, [PyNone, PyNone, PyNone]))
              ''c'' (4 / 5) = []"
    by (simp add: detect_patterns_def column_series_def dropna_def s_len_def)
  have corr: "calculate_correlations example_pandas ?s = []"
    by (simp add: calculate_correlations_def numeric_columns_def)
  have mp: "analyze_missing_patterns ?s =
              [(''c'', [(''pattern'', JStr ''all_missing''), (''count'', JInt 3),
                        (''percentage'', JInt 100)])]"
    by (simp add: analyze_missing_patterns_def missing_record_def isnull_mask_def
          column_series_def df_len_def Let_def)
  have q: "calculate_quality_score
             [(''c'', [(''count'', JInt 3), (''null_count'', JInt 3),
                       (''null_percentage'', JNum (Fin 100)), (''dtype'', JStr ''all_null'')])]
             []
             [(''c'', [(''pattern'', JStr ''all_missing''), (''count'', JInt 3),
                       (''percentage'', JInt 100)])] = Inr (Fin 50)"
    by (simp add: calculate_quality_score_def completeness_score_def outlier_score_def
          pattern_score_def ebind_def dict_get_def subscript_def fsum_def Let_def)
  have len3: "df_len ?s = 3" by (simp add: df_len_def)
  show ?thesis
    unfolding execute_def Let_def v c
    by (simp add: run_profiling_def sampling_config_def load_learned_patterns_def len sm
          pc dp corr mp q len3 Let_def)
qed

lemma sampled_table:
  "profiled_table example_pandas df_sparse_text sampling_config =
     \<lparr>df_index = [0, 1, 2], df_columns = [(''c'', D_object, [PyNone, PyNone, PyNone])]\<rparr>"
proof -
  have len: "df_len df_sparse_text = 8" by (simp add: df_len_def df_sparse_text_def)
  show ?thesis
    unfolding profiled_table_def len
    by (simp add: sample_size_of_def sampling_config_def example_pandas_def example_sample_def
          df_sparse_text_def)
qed

lemma sampled_series:
  "consulted_series example_pandas df_sparse_text sampling_config =
     [\<lparr>s_dtype = D_object, s_index = [0, 1, 2], s_values = [PyNone, PyNone, PyNone]\<rparr>,
      \<lparr>s_dtype = D_object, s_index = [], s_values = []\<rparr>]"
  unfolding consulted_series_def sampled_table
  by (simp add: column_series_def dropna_def)

lemma profile_at_clock:
  assumes t: "t = day_ns \<or> t = 7 * day_ns"
  shows "profile_column (clocked_pandas t)
           (column_series df_now (D_object, [PyTimestamp 0, PyStr ''now''])) ''when'' (4 / 5) =
         Inr [(''count'', JInt 2), (''null_count'', JInt 0), (''null_percentage'', JNum (Fin 0)),
              (''dtype'', JStr ''datetime''),
              (''date_range'', JDict [(''min'', JStr ''instant''), (''max'', JStr ''instant'')]),
              (''frequency'', JStr (if t = day_ns then ''daily'' else ''weekly''))]"
proof -
  let ?s = "\<lparr>s_dtype = D_object, s_index = [0, 1], s_values = [PyTimestamp 0, PyStr ''now'']\<rparr>"
  have cs: "column_series df_now (D_object, [PyTimestamp 0, PyStr ''now'']) = ?s"
    by (simp add: column_series_def df_now_def)
  have dn: "dropna ?s = ?s" by (simp add: dropna_def)
  have td: "to_datetime (clocked_pandas t) ?s = Inr [Some 0, Some t]"
    by (simp add: clocked_pandas_def clocked_datetime_def)
  have iso: "isoformat (clocked_pandas t) = (\<lambda>t. ''instant'')"
    by (simp add: clocked_pandas_def example_pandas_def)
  have dt: "determine_dtype (clocked_pandas t) ?s = ''datetime''"
    by (simp add: determine_dtype_def s_len_def boolean_rule_def series_unique_def
          boolean_like_keys_def datetime_types_def td notna_sum_def Let_def)
  have pos: "0 < t" "t \<noteq> 0" using t by (auto simp: day_ns_def)
  have fr: "detect_date_frequency (clocked_pandas t) [0, t] =
              (if t = day_ns then ''daily'' else ''weekly'')"
    using t pos
    by (auto simp: detect_date_frequency_def consecutive_diffs_def mode0_def Let_def day_ns_def)
  have mm: "Min (set [0, t]) = 0" "Max (set [0, t]) = t" using pos by simp_all
  have pd: "profile_datetime (clocked_pandas t) ?s =
        Inr [(''date_range'', JDict [(''min'', JStr ''instant''), (''max'', JStr ''instant'')]),
             (''frequency'', JStr (if t = day_ns then ''daily'' else ''weekly''))]"
    unfolding profile_datetime_def td ebind_def iso
    by (simp add: somes_def Let_def fr mm del: set_simps)
  show ?thesis
    unfolding cs profile_column_def Let_def dn dt pd
    by (simp add: s_len_def isnull_sum_def np_ratio_def ebind_def dict_update_def)
qed


lemma clocked_run_profile:
  assumes t: "t = day_ns \<or> t = 7 * day_ns"
  shows "map_option r_profile
           (res_data (fst (execute (clocked_pandas t) (None :: unit learning_history option) now ()
                             (Some (DataFrame df_now)) learning_off_config))) =
         Some [(''when'',
                [(''count'', JInt 2), (''null_count'', JInt 0), (''null_percentage'', JNum (Fin 0)),
                 (''dtype'', JStr ''datetime''),
                 (''date_range'', JDict [(''min'', JStr ''instant''), (''max'', JStr ''instant'')]),
                 (''frequency'', JStr (if t = day_ns then ''daily'' else ''weekly''))])]"
proof -
  have v: "validate_input (Some (DataFrame df_now)) = []"
    by (simp add: validate_input_def df_empty_def df_now_def)
  have c: "validate_config learning_off_config = []"
    by (simp add: validate_config_def learning_off_config_def)
  have len: "df_len df_now = 2" by (simp add: df_len_def df_now_def)
  have sm: "sample_dataframe (clocked_pandas t) df_now 100000 = df_now"
    unfolding sample_dataframe_def len by simp
  have cols: "df_columns df_now = [(''when'', D_object, [PyTimestamp 0, PyStr ''now''])]"
    by (simp add: df_now_def)
  have corr: "calculate_correlations (clocked_pandas t) df_now = []"
    by (simp add: calculate_correlations_def numeric_columns_def df_now_def)
  have mp: "analyze_missing_patterns df_now =
              [(''when'', [(''pattern'', JStr ''none''), (''count'', JInt 0),
                           (''percentage'', JInt 0)])]"
    by (simp add: analyze_missing_patterns_def missing_record_def isnull_mask_def
          column_series_def df_len_def df_now_def Let_def)
  have q: "calculate_quality_score
             [(''when'',
                [(''count'', JInt 2), (''null_count'', JInt 0), (''null_percentage'', JNum (Fin 0)),
                 (''dtype'', JStr ''datetime''),
                 (''date_range'', JDict [(''min'', JStr ''instant''), (''max'', JStr ''instant'')]),
                 (''frequency'', JStr (if t = day_ns then ''daily'' else ''weekly''))])]
             []
             [(''when'', [(''pattern'', JStr ''none''), (''count'', JInt 0),
                          (''percentage'', JInt 0)])] = Inr (Fin 100)"
    by (simp add: calculate_quality_score_def completeness_score_def outlier_score_def
          pattern_score_def ebind_def dict_get_def subscript_def fsum_def Let_def)
  show ?thesis
    unfolding execute_def Let_def v c
    by (simp add: run_profiling_def learning_off_config_def load_learned_patterns_def len sm
          cols profile_at_clock [OF t] corr mp q Let_def)
qed

lemma without_profiled_at_profile:
  "map_option r_profile (res_data (without_profiled_at r)) = map_option r_profile (res_data r)"
  by (cases "res_data r") (simp_all add: without_profiled_at_def)

text \<open>
  Claim C3. With learning disabled, two invocations of \<^verbatim>\<open>execute\<close> on the same table and
  configuration give the same result but for \<open>profiled_at\<close>, whatever the learning history
  objects, their states and the times of the two runs are, provided that the date parser
  answers alike in both runs on every column of the profiled table and on its non-null
  part; and the learning history is left as it was. The sampler is only ever called with
  the seed 42: a sampler that differs at other seeds gives the same result. What a
  successful run reports is the profile, the patterns, the correlations and the missing
  patterns of the profiled table, which is the sample of \<open>sample_size\<close> rows drawn with the
  seed 42 exactly when the table has more rows than \<open>sample_size\<close>; \<open>sampled\<close>,
  \<open>sample_size\<close> and \<open>original_size\<close> say so.
\<close>

theorem execute_deterministic:
  assumes off: "cfg_enable_learning cfg = Some False"
    and differ: "P2 = P1\<lparr>to_datetime := to_datetime P2\<rparr>"
    and same: "\<forall>df. data = Some (DataFrame df) \<longrightarrow>
                 (\<forall>s \<in> set (consulted_series P1 df cfg). to_datetime P1 s = to_datetime P2 s)"
  shows "without_profiled_at (fst (execute P1 L1 now1 h1 data cfg)) =
         without_profiled_at (fst (execute P2 L2 now2 h2 data cfg))
     \<and> snd (execute P1 L1 now1 h1 data cfg) = h1
     \<and> (\<forall>f. (\<forall>df n. f df n 42 = df_sample P1 df n 42) \<longrightarrow>
            execute (P1\<lparr>df_sample := f\<rparr>) L1 now1 h1 data cfg = execute P1 L1 now1 h1 data cfg)
     \<and> (\<forall>df d. data = Some (DataFrame df) \<and>
                res_data (fst (execute P1 L1 now1 h1 data cfg)) = Some d \<longrightarrow>
            profile_of_table P1 (profiled_table P1 df cfg) (threshold_of cfg) =
              Inr (r_profile d, r_patterns d)
          \<and> r_correlations d = calculate_correlations P1 (profiled_table P1 df cfg)
          \<and> r_missing_patterns d = analyze_missing_patterns (profiled_table P1 df cfg)
          \<and> md_sampled (r_metadata d) = (int (df_len df) > sample_size_of cfg)
          \<and> md_sample_size (r_metadata d) = df_len (profiled_table P1 df cfg)
          \<and> md_original_size (r_metadata d) = df_len df)"
proof (intro conjI allI impI)
  have "without_profiled_at (fst (execute P1 L1 now1 h1 data cfg)) =
        without_profiled_at (fst (execute P1 L2 now2 h2 data cfg))"
    using off by (rule execute_learning_off(1))
  also have "execute P1 L2 now2 h2 data cfg = execute P2 L2 now2 h2 data cfg"
    using differ same by (rule parser_execute [symmetric])
  finally show "without_profiled_at (fst (execute P1 L1 now1 h1 data cfg)) =
         without_profiled_at (fst (execute P2 L2 now2 h2 data cfg))" .
  show "snd (execute P1 L1 now1 h1 data cfg) = h1"
    using off by (rule execute_learning_off(2))
next
  fix f :: "dataframe \<Rightarrow> int \<Rightarrow> nat \<Rightarrow> dataframe"
  assume "\<forall>df n. f df n 42 = df_sample P1 df n 42"
  then show "execute (P1\<lparr>df_sample := f\<rparr>) L1 now1 h1 data cfg = execute P1 L1 now1 h1 data cfg"
    by (rule sampler_execute)
next
  fix df d
  assume a: "data = Some (DataFrame df) \<and>
             res_data (fst (execute P1 L1 now1 h1 data cfg)) = Some d"
  then obtain d0 where run: "learning_free_run P1 df cfg = Inr d0" and d: "d = stamp now1 d0"
    using execute_success_data [OF off, of data df P1 L1 now1 h1 d] by blast
  note facts = learning_free_run_data [OF off run]
  have st: "r_profile d = r_profile d0" "r_patterns d = r_patterns d0"
    "r_correlations d = r_correlations d0" "r_missing_patterns d = r_missing_patterns d0"
    "md_sampled (r_metadata d) = md_sampled (r_metadata d0)"
    "md_sample_size (r_metadata d) = md_sample_size (r_metadata d0)"
    "md_original_size (r_metadata d) = md_original_size (r_metadata d0)"
    unfolding d by (simp_all add: stamp_def)
  show "profile_of_table P1 (profiled_table P1 df cfg) (threshold_of cfg) =
              Inr (r_profile d, r_patterns d)"
    unfolding st using facts by blast
  show "r_correlations d = calculate_correlations P1 (profiled_table P1 df cfg)"
    unfolding st using facts by blast
  show "r_missing_patterns d = analyze_missing_patterns (profiled_table P1 df cfg)"
    unfolding st using facts by blast
  show "md_sampled (r_metadata d) = (int (df_len df) > sample_size_of cfg)"
    unfolding st using facts by blast
  show "md_sample_size (r_metadata d) = df_len (profiled_table P1 df cfg)"
    unfolding st using facts by blast
  show "md_original_size (r_metadata d) = df_len df"
    unfolding st using facts by blast
qed

theorem execute_deterministic_witness:
  "cfg_enable_learning sampling_config = Some False
   \<and> clocked_pandas day_ns =
       example_pandas\<lparr>to_datetime := to_datetime (clocked_pandas day_ns)\<rparr>
   \<and> map (to_datetime example_pandas)
        (consulted_series example_pandas df_sparse_text sampling_config) =
      map (to_datetime (clocked_pandas day_ns))
        (consulted_series example_pandas df_sparse_text sampling_config)
   \<and> without_profiled_at
        (fst (execute example_pandas (Some manager_without_methods) ''monday'' (5 :: nat)
                (Some (DataFrame df_sparse_text)) sampling_config)) =
      without_profiled_at
        (fst (execute (clocked_pandas day_ns) None ''tuesday'' ()
                (Some (DataFrame df_sparse_text)) sampling_config))
   \<and> snd (execute example_pandas (Some manager_without_methods) ''monday'' (5 :: nat)
            (Some (DataFrame df_sparse_text)) sampling_config) = 5
   \<and> (\<forall>df n. other_seeds_sampler df n 42 = df_sample example_pandas df n 42)
   \<and> execute (example_pandas\<lparr>df_sample := other_seeds_sampler\<rparr>)
        (Some manager_without_methods) ''monday'' (5 :: nat)
        (Some (DataFrame df_sparse_text)) sampling_config =
      execute example_pandas (Some manager_without_methods) ''monday'' (5 :: nat)
        (Some (DataFrame df_sparse_text)) sampling_config
   \<and> profiled_table example_pandas df_sparse_text sampling_config =
       \<lparr>df_index = [0, 1, 2], df_columns = [(''c'', D_object, [PyNone, PyNone, PyNone])]\<rparr>
   \<and> profile_of_table example_pandas
        (profiled_table example_pandas df_sparse_text sampling_config)
        (threshold_of sampling_config) =
      Inr ([(''c'', [(''count'', JInt 3), (''null_count'', JInt 3),
                     (''null_percentage'', JNum (Fin 100)), (''dtype'', JStr ''all_null'')])],
           [(''c'', [])])
   \<and> sample_size_of sampling_config < int (df_len df_sparse_text)"
proof -
  let ?data = "Some (DataFrame df_sparse_text)"
  let ?d = "\<lparr>r_profile = [(''c'', [(''count'', JInt 3), (''null_count'', JInt 3),
                                (''null_percentage'', JNum (Fin 100)),
                                (''dtype'', JStr ''all_null'')])],
          r_patterns = [(''c'', [])],
          r_correlations = [],
          r_missing_patterns =
            [(''c'', [(''pattern'', JStr ''all_missing''), (''count'', JInt 3),
                      (''percentage'', JInt 100)])],
          r_quality_score = Fin 50,
          r_metadata = \<lparr>md_sampled = True, md_sample_size = 3, md_original_size = 8,
                         md_profiled_at = ''tuesday''\<rparr>\<rparr>"
  have h: "cfg_enable_learning sampling_config = Some False" by (simp add: sampling_config_def)
  have dz: "clocked_pandas day_ns =
       example_pandas\<lparr>to_datetime := to_datetime (clocked_pandas day_ns)\<rparr>"
    by (simp add: clocked_pandas_def)
  have m: "map (to_datetime example_pandas)
        (consulted_series example_pandas df_sparse_text sampling_config) =
      map (to_datetime (clocked_pandas day_ns))
        (consulted_series example_pandas df_sparse_text sampling_config)"
    unfolding sampled_series
    by (simp add: clocked_pandas_def example_pandas_def clocked_datetime_def)
  have same: "\<forall>df. ?data = Some (DataFrame df) \<longrightarrow>
                 (\<forall>s \<in> set (consulted_series example_pandas df sampling_config).
                    to_datetime example_pandas s = to_datetime (clocked_pandas day_ns) s)"
    using m by (simp only: map_eq_conv option.inject data_value.inject) blast
  have o: "\<forall>df n. other_seeds_sampler df n 42 = df_sample example_pandas df n 42"
    by (simp add: other_seeds_sampler_def example_pandas_def)
  have s: "res_data (fst (execute example_pandas (None :: unit learning_history option)
                            ''tuesday'' () ?data sampling_config)) = Some ?d"
    by (simp add: sampled_run)
  note a = execute_deterministic [OF h dz same, of "Some manager_without_methods"
        "''monday''" "5 :: nat" None "''tuesday''" "()"]
  note b = execute_deterministic [OF h dz same, of "None :: unit learning_history option"
        "''tuesday''" "()" "None :: unit learning_history option" "''tuesday''" "()"]
  from b s have p: "profile_of_table example_pandas
        (profiled_table example_pandas df_sparse_text sampling_config)
        (threshold_of sampling_config) = Inr (r_profile ?d, r_patterns ?d)"
    and q: "md_sampled (r_metadata ?d) =
              (int (df_len df_sparse_text) > sample_size_of sampling_config)"
    by blast+
  from p have p': "profile_of_table example_pandas
        (profiled_table example_pandas df_sparse_text sampling_config)
        (threshold_of sampling_config) =
      Inr ([(''c'', [(''count'', JInt 3), (''null_count'', JInt 3),
                     (''null_percentage'', JNum (Fin 100)), (''dtype'', JStr ''all_null'')])],
           [(''c'', [])])"
    by simp
  from q have q': "sample_size_of sampling_config < int (df_len df_sparse_text)" by simp
  from a o have a1: "without_profiled_at
        (fst (execute example_pandas (Some manager_without_methods) ''monday'' (5 :: nat)
                ?data sampling_config)) =
      without_profiled_at
        (fst (execute (clocked_pandas day_ns) None ''tuesday'' () ?data sampling_config))"
    and a2: "snd (execute example_pandas (Some manager_without_methods) ''monday'' (5 :: nat)
            ?data sampling_config) = 5"
    and a3: "execute (example_pandas\<lparr>df_sample := other_seeds_sampler\<rparr>)
        (Some manager_without_methods) ''monday'' (5 :: nat) ?data sampling_config =
      execute example_pandas (Some manager_without_methods) ''monday'' (5 :: nat)
        ?data sampling_config"
    by blast+
  from h dz m a1 a2 o a3 sampled_table p' q' show ?thesis by (intro conjI)
qed

text \<open>
  Without the proviso on the date parser the two results can differ in more than
  \<open>profiled_at\<close>. The column that holds the timestamp of the instant 0 and the text
  \<^verbatim>\<open>'now'\<close> has the two types \<^verbatim>\<open>Timestamp\<close> and \<^verbatim>\<open>str\<close>, all its cells parse, and it is
  profiled as \<open>datetime\<close>; its \<open>frequency\<close> is \<open>daily\<close> in a run made one day after the
  instant 0 and \<open>weekly\<close> in a run made seven days after it, with learning disabled in
  both.
\<close>

theorem clock_text_changes_result:
  "cfg_enable_learning learning_off_config = Some False
   \<and> clocked_pandas (7 * day_ns) =
       (clocked_pandas day_ns)\<lparr>to_datetime := to_datetime (clocked_pandas (7 * day_ns))\<rparr>
   \<and> without_profiled_at
        (fst (execute (clocked_pandas day_ns) (None :: unit learning_history option) ''first'' ()
                (Some (DataFrame df_now)) learning_off_config)) \<noteq>
      without_profiled_at
        (fst (execute (clocked_pandas (7 * day_ns)) (None :: unit learning_history option)
                ''second'' () (Some (DataFrame df_now)) learning_off_config))"
proof (intro conjI)
  show "cfg_enable_learning learning_off_config = Some False"
    by (simp add: learning_off_config_def)
  show "clocked_pandas (7 * day_ns) =
       (clocked_pandas day_ns)\<lparr>to_datetime := to_datetime (clocked_pandas (7 * day_ns))\<rparr>"
    by (simp add: clocked_pandas_def)
  have ne: "7 * day_ns \<noteq> day_ns" by (simp add: day_ns_def)
  have a: "map_option r_profile
           (res_data (fst (execute (clocked_pandas day_ns) (None :: unit learning_history option)
                             ''first'' () (Some (DataFrame df_now)) learning_off_config))) =
         Some [(''when'',
                [(''count'', JInt 2), (''null_count'', JInt 0), (''null_percentage'', JNum (Fin 0)),
                 (''dtype'', JStr ''datetime''),
                 (''date_range'', JDict [(''min'', JStr ''instant''), (''max'', JStr ''instant'')]),
                 (''frequency'', JStr ''daily'')])]"
    using clocked_run_profile [of day_ns "''first''"] by simp
  have b: "map_option r_profile
           (res_data (fst (execute (clocked_pandas (7 * day_ns))
                             (None :: unit learning_history option)
                             ''second'' () (Some (DataFrame df_now)) learning_off_config))) =
         Some [(''when'',
                [(''count'', JInt 2), (''null_count'', JInt 0), (''null_percentage'', JNum (Fin 0)),
                 (''dtype'', JStr ''datetime''),
                 (''date_range'', JDict [(''min'', JStr ''instant''), (''max'', JStr ''instant'')]),
                 (''frequency'', JStr ''weekly'')])]"
    using clocked_run_profile [of "7 * day_ns" "''second''"] ne by simp
  show "without_profiled_at
        (fst (execute (clocked_pandas day_ns) (None :: unit learning_history option) ''first'' ()
                (Some (DataFrame df_now)) learning_off_config)) \<noteq>
      without_profiled_at
        (fst (execute (clocked_pandas (7 * day_ns)) (None :: unit learning_history option)
                ''second'' () (Some (DataFrame df_now)) learning_off_config))"
  proof
    assume "without_profiled_at
        (fst (execute (clocked_pandas day_ns) (None :: unit learning_history option) ''first'' ()
                (Some (DataFrame df_now)) learning_off_config)) =
      without_profiled_at
        (fst (execute (clocked_pandas (7 * day_ns)) (None :: unit learning_history option)
                ''second'' () (Some (DataFrame df_now)) learning_off_config))"
    then have "map_option r_profile
           (res_data (fst (execute (clocked_pandas day_ns) (None :: unit learning_history option)
                             ''first'' () (Some (DataFrame df_now)) learning_off_config))) =
         map_option r_profile
           (res_data (fst (execute (clocked_pandas (7 * day_ns))
                             (None :: unit learning_history option)
                             ''second'' () (Some (DataFrame df_now)) learning_off_config)))"
      using without_profiled_at_profile by metis
    then show False unfolding a b by simp
  qed
qed

end
